theory Spec2Isabelle
  imports Complex_Main "HOL-Library.Word"
begin

unbundle bit_operations_syntax

section \<open>Solidification module of the CDO schemes (cs_solidification.c)\<close>

text \<open>
  The embedding follows \<^verbatim>\<open>src/cdo/cs_solidification.c\<close>.

  \<^item> \<^verbatim>\<open>cs_real_t\<close> (a C double) is idealised as \<^typ>\<open>real\<close>: rounding, infinities and
    NaN are not represented. A quotient whose divisor is zero has no meaning here (C would
    give an infinity or a NaN, HOL gives 0), so every theorem whose truth depends on the
    value of a quotient assumes its divisor to be non-zero. What the code stores in the
    liquid fraction field when a divisor is zero is modelled apart, on doubles with
    their special values.
  \<^item> \<^verbatim>\<open>cs_lnum_t\<close> cell and face numbers and the \<^verbatim>\<open>cs_gnum_t\<close> counters are natural
    numbers: a counter is incremented at most once per cell and the number of cells is a
    \<^verbatim>\<open>cs_lnum_t\<close>, so no counter wraps around.
  \<^item> C arrays are lists, \<^verbatim>\<open>a[i] = v\<close> is \<^term>\<open>a[i := v]\<close>; a \<^verbatim>\<open>NULL\<close> array is \<^term>\<open>[]\<close>.
    The theorems state the array lengths the allocation code establishes.
  \<^item> \<^verbatim>\<open>bft_error\<close> never returns: it is the \<^term>\<open>Inl\<close> result of a function.
  \<^item> identifiers lose the leading underscore of the C names.
\<close>

subsection \<open>Types\<close>

text \<open>The enumeration of the states; \<^verbatim>\<open>CS_SOLIDIFICATION_N_STATES\<close> is a member of the C
  enumeration and is used as the "no state yet" value in \<^verbatim>\<open>_get_alloy_state\<close>.\<close>

datatype cs_solidification_state_t =
    CS_SOLIDIFICATION_STATE_SOLID
  | CS_SOLIDIFICATION_STATE_MUSHY
  | CS_SOLIDIFICATION_STATE_LIQUID
  | CS_SOLIDIFICATION_STATE_EUTECTIC
  | CS_SOLIDIFICATION_N_STATES

text \<open>The integer value of an enumerator, used as an index into \<^verbatim>\<open>n_g_cells\<close> and
  \<^verbatim>\<open>state_ratio\<close>.\<close>

fun state_id :: "cs_solidification_state_t \<Rightarrow> nat" where
  "state_id CS_SOLIDIFICATION_STATE_SOLID = 0"
| "state_id CS_SOLIDIFICATION_STATE_MUSHY = 1"
| "state_id CS_SOLIDIFICATION_STATE_LIQUID = 2"
| "state_id CS_SOLIDIFICATION_STATE_EUTECTIC = 3"
| "state_id CS_SOLIDIFICATION_N_STATES = 4"

text \<open>The ways a call can end without returning: \<^verbatim>\<open>bft_error\<close> with its message, a
  failed \<^verbatim>\<open>assert\<close> with the asserted expression, a store through a \<^verbatim>\<open>NULL\<close> pointer.\<close>

datatype error = Bft_error string | Assertion_failed string | Null_dereference

text \<open>The parameters of the Voller and Prakash model. The fields \<^verbatim>\<open>latent_heat\<close> and
  \<^verbatim>\<open>forcing_coef\<close> carry the prefix \<open>v_\<close> here, since the binary alloy structure has
  fields of the same names.\<close>

record cs_solidification_voller_t =
  t_solidus :: real
  t_liquidus :: real
  v_latent_heat :: real
  v_forcing_coef :: real

text \<open>The numerical members of the binary alloy structure (the pointers to the solute
  equation, to fields and to properties are external objects; the arrays they give access
  to are arguments of the functions below).\<close>

record cs_solidification_binary_alloy_t =
  dilatation_coef :: real
  ref_concentration :: real
  latent_heat :: real
  forcing_coef :: real
  t_melt :: real
  t_eutec :: real
  t_eutec_inf :: real
  t_eutec_sup :: real
  c_eutec :: real
  c_eutec_a :: real
  kp :: real
  inv_kp :: real
  ml :: real
  inv_ml :: real
  diff_coef :: real

datatype model_context_t =
    NULL_context
  | Voller_context cs_solidification_voller_t
  | Binary_alloy_context cs_solidification_binary_alloy_t

text \<open>The function pointer \<^verbatim>\<open>update\<close>: which of the two updaters it is bound to.\<close>

datatype cs_solidification_update_t =
    NULL_update
  | Update_liquid_fraction_voller
  | Update_liquid_fraction_binary_alloy

text \<open>The module structure. \<^verbatim>\<open>g_l\<close> and \<^verbatim>\<open>g_l_pre\<close> are the current and previous values
  of the field \<^verbatim>\<open>g_l_field\<close>, \<^verbatim>\<open>c_l\<close> and \<^verbatim>\<open>c_l_pre\<close> those of the field \<^verbatim>\<open>c_l_field\<close> of
  the alloy, \<^verbatim>\<open>c_l_faces\<close> the face array of the alloy, \<^verbatim>\<open>solid_cells\<close> the selection
  last handed to the momentum equation by \<^verbatim>\<open>_enforce_solid_cells\<close>.\<close>

record cs_solidification_t =
  model :: "16 word"
  options :: "16 word"
  post_flag :: "16 word"
  g_l :: "real list"
  g_l_pre :: "real list"
  cell_state :: "cs_solidification_state_t list"
  state_ratio :: "real list"
  n_g_cells :: "nat list"
  thermal_reaction_coef_array :: "real list"
  thermal_source_term_array :: "real list"
  model_context :: model_context_t
  forcing_mom_array :: "real list"
  update :: cs_solidification_update_t
  c_l :: "real list"
  c_l_pre :: "real list"
  c_l_faces :: "real list"
  solid_cells :: "nat list"

text \<open>The part of \<^verbatim>\<open>cs_cdo_quantities_t\<close> that the module reads.\<close>

record cs_cdo_quantities_t =
  n_cells :: nat
  n_faces :: nat
  cell_vol :: "real list"
  vol_tot :: real

text \<open>The bits of \<^verbatim>\<open>cs_solidification_model_t\<close>. Their values are given in the header
  \<^verbatim>\<open>cs_solidification.h\<close>; the masks are a parameter of every function that tests one.\<close>

record cs_solidification_model_bit_t =
  CS_SOLIDIFICATION_MODEL_STOKES :: "16 word"
  CS_SOLIDIFICATION_MODEL_NAVIER_STOKES :: "16 word"
  CS_SOLIDIFICATION_MODEL_USE_TEMPERATURE :: "16 word"
  CS_SOLIDIFICATION_MODEL_USE_ENTHALPY :: "16 word"
  CS_SOLIDIFICATION_MODEL_VOLLER_PRAKASH_87 :: "16 word"
  CS_SOLIDIFICATION_MODEL_BINARY_ALLOY :: "16 word"

text \<open>The initial values of the two static variables of the file.\<close>

definition cs_solidification_forcing_eps_init :: real where
  "cs_solidification_forcing_eps_init = 1 / 1000"

definition cs_solidification_eutectic_threshold :: real where
  "cs_solidification_eutectic_threshold = 1 / 10000"

subsection \<open>Helpers for arrays and the parallel sum\<close>

text \<open>\<^verbatim>\<open>a[i] += 1\<close> on a counter array.\<close>

definition incr :: "nat list \<Rightarrow> nat \<Rightarrow> nat list" where
  "incr a i = a[i := a ! i + 1]"

text \<open>Modelled from the spec: \<^verbatim>\<open>cs_parall_sum\<close> is defined in \<^verbatim>\<open>cs_parall.c\<close>, of which
  only the call is known here. The spec describes it as the global sum of a small fixed-size vector: every rank ends with
  the component-wise sum of the vectors of all ranks. Seen from one rank, \<open>others\<close>
  are the vectors of the other ranks and \<open>loc\<close> is its own.\<close>

definition cs_parall_sum :: "('a::monoid_add) list list \<Rightarrow> 'a list \<Rightarrow> 'a list" where
  "cs_parall_sum others loc = foldr (map2 (+)) others loc"

text \<open>A \<^verbatim>\<open>for\<close> loop over cell or face numbers whose body may stop the run with
  \<^verbatim>\<open>bft_error\<close>: the first error ends the loop.\<close>

fun for_loop :: "(nat \<Rightarrow> 's \<Rightarrow> error + 's) \<Rightarrow> nat list \<Rightarrow> 's \<Rightarrow> error + 's" where
  "for_loop body [] s = Inr s"
| "for_loop body (i # is) s =
     (case body i s of Inl e \<Rightarrow> Inl e | Inr s' \<Rightarrow> for_loop body is s')"

subsection \<open>Data owned by other modules\<close>

text \<open>What an update pass reads from objects the module does not own: the values of the
  temperature field, the current and previous values of the solute concentration, the
  face values of both, the (uniform) mass density returned by
  \<^verbatim>\<open>cs_property_get_cell_value\<close> and the time step \<^verbatim>\<open>ts->dt[0]\<close>.\<close>

record cs_fields_t =
  temperature_val :: "real list"
  bulk_conc :: "real list"
  bulk_conc_prev :: "real list"
  bulk_conc_f :: "real list"
  temp_faces :: "real list"
  cell_rho :: real
  dt0 :: real

subsection \<open>Enforcement of solid cells\<close>

text \<open>\<^verbatim>\<open>_enforce_solid_cells\<close> collects the cells tagged solid, in increasing order, and
  hands the selection to the momentum equation. The face velocities it sets to zero
  belong to the advection field and are not part of this model.\<close>

definition enforce_solid_cells ::
  "cs_cdo_quantities_t \<Rightarrow> cs_solidification_t \<Rightarrow> cs_solidification_t" where
  "enforce_solid_cells quant solid =
     solid\<lparr>solid_cells :=
       filter (\<lambda>c_id. cell_state solid ! c_id = CS_SOLIDIFICATION_STATE_SOLID)
         [0..<n_cells quant]\<rparr>"

subsection \<open>The Voller and Prakash updater\<close>

text \<open>The body of the loop on cells of \<^verbatim>\<open>_update_liquid_fraction_voller\<close>.\<close>

definition voller_cell ::
  "cs_solidification_voller_t \<Rightarrow> real \<Rightarrow> real \<Rightarrow> real \<Rightarrow> real \<Rightarrow>
   cs_cdo_quantities_t \<Rightarrow> real list \<Rightarrow> nat \<Rightarrow> cs_solidification_t \<Rightarrow> cs_solidification_t" where
  "voller_cell v_model forcing_eps dgldT inv_forcing_eps dgldT_coef quant temp c_id solid =
     (if temp ! c_id < t_solidus v_model then
        solid\<lparr>g_l := (g_l solid)[c_id := 0],
              thermal_reaction_coef_array := (thermal_reaction_coef_array solid)[c_id := 0],
              thermal_source_term_array := (thermal_source_term_array solid)[c_id := 0],
              cell_state := (cell_state solid)[c_id := CS_SOLIDIFICATION_STATE_SOLID],
              n_g_cells := incr (n_g_cells solid) (state_id CS_SOLIDIFICATION_STATE_SOLID),
              forcing_mom_array :=
                (forcing_mom_array solid)[c_id := v_forcing_coef v_model * inv_forcing_eps]\<rparr>
      else if temp ! c_id > t_liquidus v_model then
        solid\<lparr>g_l := (g_l solid)[c_id := 1],
              thermal_reaction_coef_array := (thermal_reaction_coef_array solid)[c_id := 0],
              thermal_source_term_array := (thermal_source_term_array solid)[c_id := 0],
              n_g_cells := incr (n_g_cells solid) (state_id CS_SOLIDIFICATION_STATE_LIQUID),
              cell_state := (cell_state solid)[c_id := CS_SOLIDIFICATION_STATE_LIQUID],
              forcing_mom_array := (forcing_mom_array solid)[c_id := 0]\<rparr>
      else
        (let glc = (temp ! c_id - t_solidus v_model) * dgldT;
             glm1 = 1 - glc
         in solid\<lparr>g_l := (g_l solid)[c_id := glc],
                  thermal_reaction_coef_array :=
                    (thermal_reaction_coef_array solid)[c_id := dgldT_coef],
                  thermal_source_term_array :=
                    (thermal_source_term_array solid)
                      [c_id := dgldT_coef * temp ! c_id * cell_vol quant ! c_id],
                  cell_state := (cell_state solid)[c_id := CS_SOLIDIFICATION_STATE_MUSHY],
                  n_g_cells := incr (n_g_cells solid) (state_id CS_SOLIDIFICATION_STATE_MUSHY),
                  forcing_mom_array :=
                    (forcing_mom_array solid)
                      [c_id := v_forcing_coef v_model *
                         glm1 * glm1 / (glc * glc * glc + forcing_eps)]\<rparr>))"

text \<open>\<^verbatim>\<open>_update_liquid_fraction_voller\<close> up to the end of the loop on cells: the counters
  are the local ones. \<open>forcing_eps\<close> is the current value of the static variable
  \<^verbatim>\<open>cs_solidification_forcing_eps\<close>. When \<open>t_liquidus = t_solidus\<close> the code computes
  \<^verbatim>\<open>dgldT = 1./0.\<close>, an infinity, which the real number \<open>dgldT\<close> below does not
  represent: see \<open>voller_g_l_double\<close> for what is stored then.\<close>

definition update_liquid_fraction_voller_cells ::
  "cs_solidification_voller_t \<Rightarrow> real \<Rightarrow> cs_fields_t \<Rightarrow> cs_cdo_quantities_t \<Rightarrow> bool \<Rightarrow>
   cs_solidification_t \<Rightarrow> cs_solidification_t" where
  "update_liquid_fraction_voller_cells v_model forcing_eps flds quant cur2prev solid =
     (let solid1 = (if cur2prev then solid\<lparr>g_l_pre := g_l solid\<rparr> else solid);
          temp = temperature_val flds;
          dgldT = 1 / (t_liquidus v_model - t_solidus v_model);
          inv_forcing_eps = 1 / forcing_eps;
          solid2 = solid1\<lparr>n_g_cells := replicate 4 0\<rparr>;
          dgldT_coef = cell_rho flds * v_latent_heat v_model * dgldT / dt0 flds
      in fold (voller_cell v_model forcing_eps dgldT inv_forcing_eps dgldT_coef quant temp)
           [0..<n_cells quant] solid2)"

text \<open>The whole of \<^verbatim>\<open>_update_liquid_fraction_voller\<close>; \<open>others\<close> are the local counters
  of the other ranks, which \<^verbatim>\<open>cs_parall_sum\<close> adds to the local ones.\<close>

definition update_liquid_fraction_voller ::
  "cs_solidification_voller_t \<Rightarrow> real \<Rightarrow> cs_fields_t \<Rightarrow> nat list list \<Rightarrow>
   cs_cdo_quantities_t \<Rightarrow> bool \<Rightarrow> cs_solidification_t \<Rightarrow> cs_solidification_t" where
  "update_liquid_fraction_voller v_model forcing_eps flds others quant cur2prev solid =
     (let solid1 = update_liquid_fraction_voller_cells v_model forcing_eps flds quant
                     cur2prev solid;
          solid2 = (if n_g_cells solid1 ! state_id CS_SOLIDIFICATION_STATE_SOLID > 0
                    then enforce_solid_cells quant solid1 else solid1)
      in solid2\<lparr>n_g_cells := cs_parall_sum others (n_g_cells solid2)\<rparr>)"

subsection \<open>The phase diagram of the binary alloy\<close>

text \<open>\<^verbatim>\<open>_get_alloy_state\<close>: the three output arguments are the components of the
  result, in the order \<open>(t_liquidus, t_solidus, state)\<close>.\<close>

definition get_alloy_state ::
  "cs_solidification_binary_alloy_t \<Rightarrow> real \<Rightarrow> real \<Rightarrow>
   real \<times> real \<times> cs_solidification_state_t" where
  "get_alloy_state alloy temp conc =
     (let t_liquidus = t_melt alloy + ml alloy * conc;
          t_solidus = (if conc < c_eutec_a alloy
                       then t_melt alloy + ml alloy * conc * inv_kp alloy
                       else t_eutec alloy);
          state = CS_SOLIDIFICATION_N_STATES;
          state =
            (if conc < c_eutec_a alloy then
               (if temp > t_liquidus then CS_SOLIDIFICATION_STATE_LIQUID
                else if temp > t_solidus then CS_SOLIDIFICATION_STATE_MUSHY
                else CS_SOLIDIFICATION_STATE_SOLID)
             else if conc \<le> c_eutec alloy then
               (if temp > t_liquidus then CS_SOLIDIFICATION_STATE_LIQUID
                else if temp > t_eutec_sup alloy then CS_SOLIDIFICATION_STATE_MUSHY
                else if temp > t_eutec_inf alloy then CS_SOLIDIFICATION_STATE_EUTECTIC
                else CS_SOLIDIFICATION_STATE_SOLID)
             else CS_SOLIDIFICATION_STATE_SOLID)
      in (t_liquidus, t_solidus, state))"

subsection \<open>The binary alloy updater\<close>

text \<open>The body of the loop on cells of \<^verbatim>\<open>_update_liquid_fraction_binary_alloy\<close>: a
  \<^verbatim>\<open>switch\<close> on the state that \<^verbatim>\<open>_get_alloy_state\<close> returns, whose \<^verbatim>\<open>default\<close> case
  calls \<^verbatim>\<open>bft_error\<close>. The quotients by \<open>kp - 1\<close>, \<open>c_eutec - c_eutec_a\<close> and \<open>dTm\<close>
  are those of real numbers and stand for what the code computes only when the divisor
  is not zero: see \<open>alloy_g_l_double\<close> for what is stored otherwise.\<close>

definition alloy_cell ::
  "cs_solidification_binary_alloy_t \<Rightarrow> real \<Rightarrow> real \<Rightarrow> real \<Rightarrow> real \<Rightarrow> real \<Rightarrow>
   cs_cdo_quantities_t \<Rightarrow> cs_fields_t \<Rightarrow> nat \<Rightarrow> cs_solidification_t \<Rightarrow>
   error + cs_solidification_t" where
  "alloy_cell alloy forcing_eps rhoLovdt inv_kpm1 eut_slope inv_forcing_eps quant flds
      c_id solid =
     (let conc = bulk_conc flds ! c_id;
          temp = temperature_val flds ! c_id;
          (t_liquidus, t_solidus, state) = get_alloy_state alloy temp conc
      in case state of
        CS_SOLIDIFICATION_STATE_SOLID \<Rightarrow>
          (let solid1 =
                 (if g_l solid ! c_id > 0 then
                    (if conc \<ge> c_eutec_a alloy
                     then solid\<lparr>c_l := (c_l solid)[c_id := c_eutec alloy]\<rparr>
                     else solid\<lparr>c_l := (c_l solid)[c_id := conc * inv_kp alloy]\<rparr>)
                  else solid)
           in Inr (solid1\<lparr>g_l := (g_l solid1)[c_id := 0],
                     thermal_reaction_coef_array :=
                       (thermal_reaction_coef_array solid1)[c_id := 0],
                     thermal_source_term_array :=
                       (thermal_source_term_array solid1)[c_id := 0],
                     forcing_mom_array :=
                       (forcing_mom_array solid1)
                         [c_id := forcing_coef alloy * inv_forcing_eps],
                     cell_state :=
                       (cell_state solid1)[c_id := CS_SOLIDIFICATION_STATE_SOLID],
                     n_g_cells :=
                       incr (n_g_cells solid1) (state_id CS_SOLIDIFICATION_STATE_SOLID)\<rparr>))
      | CS_SOLIDIFICATION_STATE_MUSHY \<Rightarrow>
          (let conc_prev = bulk_conc_prev flds ! c_id;
               dTm = temp - t_melt alloy;
               glc = 1 + inv_kpm1 * (temp - t_liquidus) / dTm;
               dgldT = inv_kpm1 * (t_liquidus - t_melt alloy) / (dTm * dTm);
               dgldC = inv_kpm1 * ml alloy / dTm
           in Inr (solid\<lparr>g_l := (g_l solid)[c_id := glc],
                     c_l := (c_l solid)[c_id := dTm * inv_ml alloy],
                     thermal_reaction_coef_array :=
                       (thermal_reaction_coef_array solid)[c_id := dgldT * rhoLovdt],
                     thermal_source_term_array :=
                       (thermal_source_term_array solid)
                         [c_id := cell_vol quant ! c_id *
                            (dgldT * temp + dgldC * (conc_prev - conc)) * rhoLovdt],
                     forcing_mom_array :=
                       (forcing_mom_array solid)
                         [c_id := forcing_coef alloy *
                            (1 - glc) * (1 - glc) / (glc * glc * glc + forcing_eps)],
                     n_g_cells :=
                       incr (n_g_cells solid) (state_id CS_SOLIDIFICATION_STATE_MUSHY),
                     cell_state :=
                       (cell_state solid)[c_id := CS_SOLIDIFICATION_STATE_MUSHY]\<rparr>))
      | CS_SOLIDIFICATION_STATE_LIQUID \<Rightarrow>
          Inr (solid\<lparr>g_l := (g_l solid)[c_id := 1],
                 c_l := (c_l solid)[c_id := conc],
                 thermal_reaction_coef_array :=
                   (thermal_reaction_coef_array solid)[c_id := 0],
                 thermal_source_term_array :=
                   (thermal_source_term_array solid)[c_id := 0],
                 forcing_mom_array := (forcing_mom_array solid)[c_id := 0],
                 n_g_cells :=
                   incr (n_g_cells solid) (state_id CS_SOLIDIFICATION_STATE_LIQUID),
                 cell_state :=
                   (cell_state solid)[c_id := CS_SOLIDIFICATION_STATE_LIQUID]\<rparr>)
      | CS_SOLIDIFICATION_STATE_EUTECTIC \<Rightarrow>
          (let glc = (conc - c_eutec_a alloy) * eut_slope;
               conc_prev = bulk_conc_prev flds ! c_id
           in Inr (solid\<lparr>g_l := (g_l solid)[c_id := glc],
                     c_l := (c_l solid)[c_id := c_eutec alloy],
                     thermal_reaction_coef_array :=
                       (thermal_reaction_coef_array solid)[c_id := 0],
                     thermal_source_term_array :=
                       (thermal_source_term_array solid)
                         [c_id := cell_vol quant ! c_id * rhoLovdt * eut_slope *
                            (conc - conc_prev)],
                     forcing_mom_array :=
                       (forcing_mom_array solid)
                         [c_id := forcing_coef alloy *
                            (1 - glc) * (1 - glc) / (glc * glc * glc + forcing_eps)],
                     n_g_cells :=
                       incr (n_g_cells solid) (state_id CS_SOLIDIFICATION_STATE_MUSHY),
                     cell_state :=
                       (cell_state solid)[c_id := CS_SOLIDIFICATION_STATE_MUSHY]\<rparr>))
      | CS_SOLIDIFICATION_N_STATES \<Rightarrow> Inl (Bft_error ''Invalid state for cell''))"

text \<open>\<^verbatim>\<open>_update_liquid_fraction_binary_alloy\<close> up to the end of the loop on cells.\<close>

definition update_liquid_fraction_binary_alloy_cells ::
  "cs_solidification_binary_alloy_t \<Rightarrow> real \<Rightarrow> cs_fields_t \<Rightarrow> cs_cdo_quantities_t \<Rightarrow>
   bool \<Rightarrow> cs_solidification_t \<Rightarrow> error + cs_solidification_t" where
  "update_liquid_fraction_binary_alloy_cells alloy forcing_eps flds quant cur2prev solid =
     (let solid1 = (if cur2prev then solid\<lparr>g_l_pre := g_l solid, c_l_pre := c_l solid\<rparr>
                    else solid);
          solid2 = solid1\<lparr>n_g_cells := replicate 4 0\<rparr>;
          rhoLovdt = cell_rho flds * latent_heat alloy / dt0 flds;
          inv_kpm1 = 1 / (kp alloy - 1);
          eut_slope = 1 / (c_eutec alloy - c_eutec_a alloy);
          inv_forcing_eps = 1 / forcing_eps
      in for_loop
           (alloy_cell alloy forcing_eps rhoLovdt inv_kpm1 eut_slope inv_forcing_eps
              quant flds)
           [0..<n_cells quant] solid2)"

text \<open>The body of the loop on faces, which only sets the liquid concentration.\<close>

definition alloy_face ::
  "cs_solidification_binary_alloy_t \<Rightarrow> cs_fields_t \<Rightarrow> nat \<Rightarrow> cs_solidification_t \<Rightarrow>
   error + cs_solidification_t" where
  "alloy_face alloy flds f_id solid =
     (let conc = bulk_conc_f flds ! f_id;
          temp = temp_faces flds ! f_id;
          (t_liquidus, t_solidus, state) = get_alloy_state alloy temp conc
      in case state of
        CS_SOLIDIFICATION_STATE_SOLID \<Rightarrow>
          (if conc \<ge> c_eutec_a alloy
           then Inr (solid\<lparr>c_l_faces := (c_l_faces solid)[f_id := c_eutec alloy]\<rparr>)
           else Inr (solid\<lparr>c_l_faces := (c_l_faces solid)[f_id := conc * inv_kp alloy]\<rparr>))
      | CS_SOLIDIFICATION_STATE_MUSHY \<Rightarrow>
          Inr (solid\<lparr>c_l_faces :=
                 (c_l_faces solid)[f_id := (temp - t_melt alloy) * inv_ml alloy]\<rparr>)
      | CS_SOLIDIFICATION_STATE_LIQUID \<Rightarrow>
          Inr (solid\<lparr>c_l_faces := (c_l_faces solid)[f_id := conc]\<rparr>)
      | CS_SOLIDIFICATION_STATE_EUTECTIC \<Rightarrow>
          Inr (solid\<lparr>c_l_faces := (c_l_faces solid)[f_id := c_eutec alloy]\<rparr>)
      | CS_SOLIDIFICATION_N_STATES \<Rightarrow> Inl (Bft_error ''Invalid state for face''))"

text \<open>The whole of \<^verbatim>\<open>_update_liquid_fraction_binary_alloy\<close>.\<close>

definition update_liquid_fraction_binary_alloy ::
  "cs_solidification_binary_alloy_t \<Rightarrow> real \<Rightarrow> cs_fields_t \<Rightarrow> nat list list \<Rightarrow>
   cs_cdo_quantities_t \<Rightarrow> bool \<Rightarrow> cs_solidification_t \<Rightarrow> error + cs_solidification_t" where
  "update_liquid_fraction_binary_alloy alloy forcing_eps flds others quant cur2prev solid =
     (case update_liquid_fraction_binary_alloy_cells alloy forcing_eps flds quant
             cur2prev solid of
        Inl e \<Rightarrow> Inl e
      | Inr solid1 \<Rightarrow>
          (let solid2 = (if n_g_cells solid1 ! state_id CS_SOLIDIFICATION_STATE_SOLID > 0
                         then enforce_solid_cells quant solid1 else solid1);
               solid3 = solid2\<lparr>n_g_cells := cs_parall_sum others (n_g_cells solid2)\<rparr>
           in for_loop (alloy_face alloy flds) [0..<n_faces quant] solid3))"

subsection \<open>Monitoring\<close>

text \<open>The body of the loop on cells of \<^verbatim>\<open>_do_monitoring\<close>.\<close>

definition monitoring_cell ::
  "cs_cdo_quantities_t \<Rightarrow> nat \<Rightarrow> cs_solidification_t \<Rightarrow> cs_solidification_t" where
  "monitoring_cell quant c_id solid =
     (let vol_c = cell_vol quant ! c_id
      in case cell_state solid ! c_id of
        CS_SOLIDIFICATION_STATE_SOLID \<Rightarrow>
          solid\<lparr>state_ratio := (state_ratio solid)
            [state_id CS_SOLIDIFICATION_STATE_SOLID :=
               state_ratio solid ! state_id CS_SOLIDIFICATION_STATE_SOLID + vol_c]\<rparr>
      | CS_SOLIDIFICATION_STATE_LIQUID \<Rightarrow>
          solid\<lparr>state_ratio := (state_ratio solid)
            [state_id CS_SOLIDIFICATION_STATE_LIQUID :=
               state_ratio solid ! state_id CS_SOLIDIFICATION_STATE_LIQUID + vol_c]\<rparr>
      | CS_SOLIDIFICATION_STATE_MUSHY \<Rightarrow>
          solid\<lparr>state_ratio := (state_ratio solid)
            [state_id CS_SOLIDIFICATION_STATE_MUSHY :=
               state_ratio solid ! state_id CS_SOLIDIFICATION_STATE_MUSHY + vol_c]\<rparr>
      | CS_SOLIDIFICATION_STATE_EUTECTIC \<Rightarrow>
          solid\<lparr>state_ratio := (state_ratio solid)
            [state_id CS_SOLIDIFICATION_STATE_EUTECTIC :=
               state_ratio solid ! state_id CS_SOLIDIFICATION_STATE_EUTECTIC + vol_c]\<rparr>
      | CS_SOLIDIFICATION_N_STATES \<Rightarrow> solid)"

text \<open>\<^verbatim>\<open>_do_monitoring\<close> up to the end of the loop on cells: the local volumes.\<close>

definition do_monitoring_cells ::
  "cs_cdo_quantities_t \<Rightarrow> cs_solidification_t \<Rightarrow> cs_solidification_t" where
  "do_monitoring_cells quant solid =
     fold (monitoring_cell quant) [0..<n_cells quant]
       (solid\<lparr>state_ratio := replicate 4 0\<rparr>)"

text \<open>\<^verbatim>\<open>_do_monitoring\<close>. The result is the new structure and the lines written to the
  log, each as the label, the percentage and the number of cells it prints. \<open>others\<close>
  are the local volumes of the other ranks.\<close>

definition do_monitoring ::
  "cs_solidification_model_bit_t \<Rightarrow> real list list \<Rightarrow> cs_cdo_quantities_t \<Rightarrow>
   cs_solidification_t \<Rightarrow> cs_solidification_t \<times> (string \<times> real \<times> nat) list" where
  "do_monitoring bits others quant solid =
     (let solid1 = do_monitoring_cells quant solid;
          solid2 = solid1\<lparr>state_ratio := cs_parall_sum others (state_ratio solid1)\<rparr>;
          inv_voltot = 1 / vol_tot quant;
          solid3 = solid2\<lparr>state_ratio := map (\<lambda>r. r * inv_voltot) (state_ratio solid2)\<rparr>;
          line = (\<lambda>label st. (label, 100 * state_ratio solid3 ! state_id st,
                               n_g_cells solid3 ! state_id st))
      in (solid3,
          [line ''Solid'' CS_SOLIDIFICATION_STATE_SOLID,
           line ''Mushy'' CS_SOLIDIFICATION_STATE_MUSHY,
           line ''Liquid'' CS_SOLIDIFICATION_STATE_LIQUID] @
          (if model solid AND CS_SOLIDIFICATION_MODEL_BINARY_ALLOY bits \<noteq> 0
           then [line ''Eutectic'' CS_SOLIDIFICATION_STATE_EUTECTIC] else [])))"

subsection \<open>Life cycle: creation, activation and the setters of the model parameters\<close>

definition err_empty_module :: string where
  "err_empty_module =
     '' Stop execution. The structure related to the solidifcation module is empty. Please check your settings.''"

text \<open>\<^verbatim>\<open>_solidification_create\<close>.\<close>

definition solidification_create :: cs_solidification_t where
  "solidification_create =
     \<lparr>model = 0, options = 0, post_flag = 0,
      g_l = [], g_l_pre = [], cell_state = [],
      state_ratio = replicate 4 0, n_g_cells = replicate 4 0,
      thermal_reaction_coef_array = [], thermal_source_term_array = [],
      model_context = NULL_context, forcing_mom_array = [], update = NULL_update,
      c_l = [], c_l_pre = [], c_l_faces = [], solid_cells = []\<rparr>"

text \<open>\<^verbatim>\<open>cs_solidification_activate\<close>, as far as the module structure goes (the activation
  of the Navier-Stokes and thermal modules is theirs). \<^verbatim>\<open>BFT_MALLOC\<close> does not initialise
  the context it allocates: \<open>v_mem\<close> and \<open>a_mem\<close> are whatever the memory holds. The
  result is the new value of the global pointer \<^verbatim>\<open>cs_solidification_structure\<close>.\<close>

definition cs_solidification_activate ::
  "cs_solidification_model_bit_t \<Rightarrow> cs_solidification_voller_t \<Rightarrow>
   cs_solidification_binary_alloy_t \<Rightarrow> 16 word \<Rightarrow> 16 word \<Rightarrow> 16 word \<Rightarrow>
   error + cs_solidification_t" where
  "cs_solidification_activate bits v_mem a_mem model_arg options_arg post_flag_arg =
     (if model_arg < 1 then Inl (Bft_error ''Invalid modelling.'')
      else
        (let solid = solidification_create
               \<lparr>model := model_arg, options := options_arg, post_flag := post_flag_arg\<rparr>
         in if model solid AND CS_SOLIDIFICATION_MODEL_VOLLER_PRAKASH_87 bits \<noteq> 0 then
              Inr (solid\<lparr>model_context := Voller_context v_mem,
                         update := Update_liquid_fraction_voller\<rparr>)
            else if model solid AND CS_SOLIDIFICATION_MODEL_BINARY_ALLOY bits \<noteq> 0 then
              Inr (solid\<lparr>model_context := Binary_alloy_context a_mem,
                         update := Update_liquid_fraction_binary_alloy\<rparr>)
            else Inr solid))"

text \<open>\<^verbatim>\<open>cs_solidification_set_voller_model\<close>. The first argument of the model is the
  global pointer \<^verbatim>\<open>cs_solidification_structure\<close> (\<^term>\<open>None\<close> when \<^verbatim>\<open>NULL\<close>). An
  \<^verbatim>\<open>assert\<close> is checked only when \<open>debug\<close> holds, that is when the file is compiled
  without \<^verbatim>\<open>NDEBUG\<close>. The four stores go to the memory the context points to.\<close>

definition cs_solidification_set_voller_model ::
  "cs_solidification_model_bit_t \<Rightarrow> bool \<Rightarrow> cs_solidification_t option \<Rightarrow>
   real \<Rightarrow> real \<Rightarrow> real \<Rightarrow> real \<Rightarrow> error + cs_solidification_t" where
  "cs_solidification_set_voller_model bits debug cs_solidification_structure
      t_solidus_arg t_liquidus_arg latent_heat_arg forcing_coef_arg =
     (case cs_solidification_structure of
        None \<Rightarrow> Inl (Bft_error err_empty_module)
      | Some solid \<Rightarrow>
          if model solid AND CS_SOLIDIFICATION_MODEL_VOLLER_PRAKASH_87 bits = 0 then
            Inl (Bft_error
              ''Voller and Prakash model not declared during the activation of the solidification module.'')
          else if debug \<and> model_context solid = NULL_context then
            Inl (Assertion_failed ''v_model != NULL'')
          else if model_context solid = NULL_context then Inl Null_dereference
          else
            Inr (solid\<lparr>model_context := Voller_context
                   \<lparr>t_solidus = t_solidus_arg, t_liquidus = t_liquidus_arg,
                    v_latent_heat = latent_heat_arg,
                    v_forcing_coef = forcing_coef_arg\<rparr>\<rparr>))"

text \<open>The values that \<^verbatim>\<open>cs_solidification_set_binary_alloy_model\<close> stores in the alloy
  structure: the arguments, then the derived parameters of the phase diagram.\<close>

definition binary_alloy_params ::
  "real \<Rightarrow> real \<Rightarrow> real \<Rightarrow> real \<Rightarrow> real \<Rightarrow> real \<Rightarrow> real \<Rightarrow> real \<Rightarrow> real \<Rightarrow>
   cs_solidification_binary_alloy_t" where
  "binary_alloy_params conc0 beta kp_arg mliq t_eutec_arg t_melt_arg solute_diff
      latent_heat_arg forcing_coef_arg =
     (let inv_kp_val = 1 / kp_arg;
          inv_ml_val = 1 / mliq;
          c_eutec_val = (t_eutec_arg - t_melt_arg) * inv_ml_val;
          c_eutec_a_val = c_eutec_val * kp_arg
      in \<lparr>dilatation_coef = beta, ref_concentration = conc0,
          latent_heat = latent_heat_arg, forcing_coef = forcing_coef_arg,
          t_melt = t_melt_arg, t_eutec = t_eutec_arg,
          t_eutec_inf = t_eutec_arg - cs_solidification_eutectic_threshold,
          t_eutec_sup = t_eutec_arg + cs_solidification_eutectic_threshold,
          c_eutec = c_eutec_val, c_eutec_a = c_eutec_a_val,
          kp = kp_arg, inv_kp = inv_kp_val, ml = mliq, inv_ml = inv_ml_val,
          diff_coef = solute_diff\<rparr>)"

text \<open>\<^verbatim>\<open>cs_solidification_set_binary_alloy_model\<close>. The names are strings here, so the
  assertion that they are not \<^verbatim>\<open>NULL\<close> holds. The model bit and the context are only
  asserted; when the assertions are compiled out the stores are made through the context
  pointer cast to the alloy type, whatever was allocated there.\<close>

definition cs_solidification_set_binary_alloy_model ::
  "cs_solidification_model_bit_t \<Rightarrow> bool \<Rightarrow> cs_solidification_t option \<Rightarrow>
   string \<Rightarrow> string \<Rightarrow> real \<Rightarrow> real \<Rightarrow> real \<Rightarrow> real \<Rightarrow> real \<Rightarrow> real \<Rightarrow> real \<Rightarrow> real \<Rightarrow>
   real \<Rightarrow> error + cs_solidification_t" where
  "cs_solidification_set_binary_alloy_model bits debug cs_solidification_structure
      name varname conc0 beta kp_arg mliq t_eutec_arg t_melt_arg solute_diff
      latent_heat_arg forcing_coef_arg =
     (case cs_solidification_structure of
        None \<Rightarrow> Inl (Bft_error err_empty_module)
      | Some solid \<Rightarrow>
          if debug \<and> model solid AND CS_SOLIDIFICATION_MODEL_BINARY_ALLOY bits = 0 then
            Inl (Assertion_failed ''solid->model & CS_SOLIDIFICATION_MODEL_BINARY_ALLOY'')
          else if debug \<and> model_context solid = NULL_context then
            Inl (Assertion_failed ''alloy != NULL'')
          else if model_context solid = NULL_context then Inl Null_dereference
          else
            Inr (solid\<lparr>model_context := Binary_alloy_context
                   (binary_alloy_params conc0 beta kp_arg mliq t_eutec_arg t_melt_arg
                      solute_diff latent_heat_arg forcing_coef_arg)\<rparr>))"

subsection \<open>Allocation invariants\<close>

text \<open>The cell arrays that an update pass of the Voller model reads and writes have one
  entry per cell: the field values and the cell volumes by construction of the mesh
  quantities, the arrays of the module by \<^verbatim>\<open>cs_solidification_finalize_setup\<close>.\<close>

definition voller_arrays_allocated ::
  "cs_cdo_quantities_t \<Rightarrow> cs_fields_t \<Rightarrow> cs_solidification_t \<Rightarrow> bool" where
  "voller_arrays_allocated quant flds solid \<longleftrightarrow>
     length (temperature_val flds) = n_cells quant \<and>
     length (cell_vol quant) = n_cells quant \<and>
     length (g_l solid) = n_cells quant \<and>
     length (cell_state solid) = n_cells quant \<and>
     length (thermal_reaction_coef_array solid) = n_cells quant \<and>
     length (thermal_source_term_array solid) = n_cells quant \<and>
     length (forcing_mom_array solid) = n_cells quant"

text \<open>The binary alloy model also uses the solute concentration and the liquid
  concentration of the cells.\<close>

definition alloy_arrays_allocated ::
  "cs_cdo_quantities_t \<Rightarrow> cs_fields_t \<Rightarrow> cs_solidification_t \<Rightarrow> bool" where
  "alloy_arrays_allocated quant flds solid \<longleftrightarrow>
     voller_arrays_allocated quant flds solid \<and>
     length (bulk_conc flds) = n_cells quant \<and>
     length (bulk_conc_prev flds) = n_cells quant \<and>
     length (c_l solid) = n_cells quant"

subsection \<open>The phase diagram as the specification words it\<close>

text \<open>The rules of section 4.1 of the specification, read in the order they are written:
  the liquidus and solidus temperatures, then the state by concentration region and, in a
  region, by temperature. A point that no rule covers gets no state.\<close>

definition spec_alloy_state ::
  "cs_solidification_binary_alloy_t \<Rightarrow> real \<Rightarrow> real \<Rightarrow>
   real \<times> real \<times> cs_solidification_state_t" where
  "spec_alloy_state alloy T C =
     (t_melt alloy + ml alloy * C,
      (if C < c_eutec_a alloy then t_melt alloy + ml alloy * C / kp alloy else t_eutec alloy),
      (if C < c_eutec_a alloy then
         (if T > t_melt alloy + ml alloy * C then CS_SOLIDIFICATION_STATE_LIQUID
          else if t_melt alloy + ml alloy * C / kp alloy < T \<and> T \<le> t_melt alloy + ml alloy * C
            then CS_SOLIDIFICATION_STATE_MUSHY
          else CS_SOLIDIFICATION_STATE_SOLID)
       else if c_eutec_a alloy \<le> C \<and> C \<le> c_eutec alloy then
         (if T > t_melt alloy + ml alloy * C then CS_SOLIDIFICATION_STATE_LIQUID
          else if t_eutec_sup alloy < T \<and> T \<le> t_melt alloy + ml alloy * C
            then CS_SOLIDIFICATION_STATE_MUSHY
          else if t_eutec_inf alloy < T \<and> T \<le> t_eutec_sup alloy
            then CS_SOLIDIFICATION_STATE_EUTECTIC
          else CS_SOLIDIFICATION_STATE_SOLID)
       else if C > c_eutec alloy then CS_SOLIDIFICATION_STATE_SOLID
       else CS_SOLIDIFICATION_N_STATES))"

subsection \<open>The entries of one cell\<close>

text \<open>The values that the cell arrays of the module hold for cell \<open>j\<close>: liquid fraction,
  liquid concentration, thermal reaction coefficient, thermal source term, forcing
  coefficient and state.\<close>

definition cell_view ::
  "cs_solidification_t \<Rightarrow> nat \<Rightarrow>
   real \<times> real \<times> real \<times> real \<times> real \<times> cs_solidification_state_t" where
  "cell_view s j =
     (g_l s ! j, c_l s ! j, thermal_reaction_coef_array s ! j,
      thermal_source_term_array s ! j, forcing_mom_array s ! j, cell_state s ! j)"

text \<open>What one iteration of the loop on cells of the binary alloy updater leaves in the
  entries of its cell, by the state of the cell in the phase diagram. (In the solid case
  the liquid concentration depends on the previous liquid fraction; it is left out.)\<close>

definition alloy_cell_post ::
  "cs_solidification_binary_alloy_t \<Rightarrow> real \<Rightarrow> cs_fields_t \<Rightarrow> cs_cdo_quantities_t \<Rightarrow>
   nat \<Rightarrow> real \<times> real \<times> real \<times> real \<times> real \<times> cs_solidification_state_t \<Rightarrow> bool" where
  "alloy_cell_post alloy forcing_eps flds quant c v =
     (case v of (g, cl, r, src, f, st) \<Rightarrow>
        (let C = bulk_conc flds ! c;
             T = temperature_val flds ! c;
             C_prev = bulk_conc_prev flds ! c;
             rhoLovdt = cell_rho flds * latent_heat alloy / dt0 flds;
             inv_kpm1 = 1 / (kp alloy - 1);
             eut_slope = 1 / (c_eutec alloy - c_eutec_a alloy);
             dTm = T - t_melt alloy;
             tl = fst (get_alloy_state alloy T C)
         in case snd (snd (get_alloy_state alloy T C)) of
           CS_SOLIDIFICATION_STATE_SOLID \<Rightarrow>
             g = 0 \<and> r = 0 \<and> src = 0 \<and> f = forcing_coef alloy * (1 / forcing_eps) \<and>
             st = CS_SOLIDIFICATION_STATE_SOLID
         | CS_SOLIDIFICATION_STATE_MUSHY \<Rightarrow>
             g = 1 + inv_kpm1 * (T - tl) / dTm \<and>
             cl = dTm * inv_ml alloy \<and>
             r = inv_kpm1 * (tl - t_melt alloy) / (dTm * dTm) * rhoLovdt \<and>
             src = cell_vol quant ! c *
                     (inv_kpm1 * (tl - t_melt alloy) / (dTm * dTm) * T +
                      inv_kpm1 * ml alloy / dTm * (C_prev - C)) * rhoLovdt \<and>
             f = forcing_coef alloy * (1 - g) * (1 - g) / (g * g * g + forcing_eps) \<and>
             st = CS_SOLIDIFICATION_STATE_MUSHY
         | CS_SOLIDIFICATION_STATE_LIQUID \<Rightarrow>
             g = 1 \<and> cl = C \<and> r = 0 \<and> src = 0 \<and> f = 0 \<and>
             st = CS_SOLIDIFICATION_STATE_LIQUID
         | CS_SOLIDIFICATION_STATE_EUTECTIC \<Rightarrow>
             g = (C - c_eutec_a alloy) * eut_slope \<and>
             cl = c_eutec alloy \<and> r = 0 \<and>
             src = cell_vol quant ! c * rhoLovdt * eut_slope * (C - C_prev) \<and>
             f = forcing_coef alloy * (1 - g) * (1 - g) / (g * g * g + forcing_eps) \<and>
             st = CS_SOLIDIFICATION_STATE_MUSHY
         | CS_SOLIDIFICATION_N_STATES \<Rightarrow> False))"

text \<open>The counter that an iteration of the binary alloy updater increments for cell
  \<open>c\<close>: the one of the state of the cell, except that a eutectic cell counts as mushy.\<close>

definition alloy_bucket ::
  "cs_solidification_binary_alloy_t \<Rightarrow> cs_fields_t \<Rightarrow> nat \<Rightarrow> nat" where
  "alloy_bucket alloy flds c =
     (case snd (snd (get_alloy_state alloy (temperature_val flds ! c) (bulk_conc flds ! c))) of
        CS_SOLIDIFICATION_STATE_EUTECTIC \<Rightarrow> state_id CS_SOLIDIFICATION_STATE_MUSHY
      | st \<Rightarrow> state_id st)"

text \<open>The counter that an iteration of the Voller updater increments for cell \<open>c\<close>.\<close>

definition voller_bucket ::
  "cs_solidification_voller_t \<Rightarrow> cs_fields_t \<Rightarrow> nat \<Rightarrow> nat" where
  "voller_bucket v flds c =
     (if temperature_val flds ! c < t_solidus v then state_id CS_SOLIDIFICATION_STATE_SOLID
      else if temperature_val flds ! c > t_liquidus v then state_id CS_SOLIDIFICATION_STATE_LIQUID
      else state_id CS_SOLIDIFICATION_STATE_MUSHY)"

subsection \<open>The other ranks of a parallel run\<close>

text \<open>Every rank runs the same code on its own part of the mesh: a rank is given here by
  the fields it reads, its mesh quantities and its module structure before the pass. The
  vector a rank contributes to the sum of the counters is its local vector of counters
  at the end of its loop on cells.\<close>

type_synonym rank_t = "cs_fields_t \<times> cs_cdo_quantities_t \<times> cs_solidification_t"

definition voller_local_counts ::
  "cs_solidification_voller_t \<Rightarrow> real \<Rightarrow> bool \<Rightarrow> rank_t \<Rightarrow> nat list" where
  "voller_local_counts v_model forcing_eps cur2prev r =
     (case r of (flds, quant, solid) \<Rightarrow>
        n_g_cells (update_liquid_fraction_voller_cells v_model forcing_eps flds quant
                     cur2prev solid))"

definition alloy_local_counts ::
  "cs_solidification_binary_alloy_t \<Rightarrow> real \<Rightarrow> bool \<Rightarrow> rank_t \<Rightarrow> nat list" where
  "alloy_local_counts alloy forcing_eps cur2prev r =
     (case r of (flds, quant, solid) \<Rightarrow>
        (case update_liquid_fraction_binary_alloy_cells alloy forcing_eps flds quant
                cur2prev solid of
           Inr s1 \<Rightarrow> n_g_cells s1
         | Inl e \<Rightarrow> []))"

text \<open>The global number of cells: the cells of this rank and those of the others.\<close>

definition n_g_cells_total :: "cs_cdo_quantities_t \<Rightarrow> rank_t list \<Rightarrow> nat" where
  "n_g_cells_total quant rs =
     n_cells quant + sum_list (map (\<lambda>r. case r of (flds, q, solid) \<Rightarrow> n_cells q) rs)"

text \<open>The vector a rank contributes to the sum of the volumes is the one its monitoring
  loop builds from its cell states, which are those at the end of its loop on cells of
  the update pass (the enforcement, the reduction and the loop on faces leave them).\<close>

definition voller_local_ratio ::
  "cs_solidification_voller_t \<Rightarrow> real \<Rightarrow> bool \<Rightarrow> rank_t \<Rightarrow> real list" where
  "voller_local_ratio v_model forcing_eps cur2prev r =
     (case r of (flds, quant, solid) \<Rightarrow>
        state_ratio (do_monitoring_cells quant
          (update_liquid_fraction_voller_cells v_model forcing_eps flds quant
             cur2prev solid)))"

definition alloy_local_ratio ::
  "cs_solidification_binary_alloy_t \<Rightarrow> real \<Rightarrow> bool \<Rightarrow> rank_t \<Rightarrow> real list" where
  "alloy_local_ratio alloy forcing_eps cur2prev r =
     (case r of (flds, quant, solid) \<Rightarrow>
        (case update_liquid_fraction_binary_alloy_cells alloy forcing_eps flds quant
                cur2prev solid of
           Inr s1 \<Rightarrow> state_ratio (do_monitoring_cells quant s1)
         | Inl e \<Rightarrow> []))"

text \<open>The arrays of every other rank are allocated as well.\<close>

definition ranks_allocated :: "rank_t list \<Rightarrow> bool" where
  "ranks_allocated rs =
     list_all (\<lambda>r. case r of (flds, quant, solid) \<Rightarrow> alloy_arrays_allocated quant flds solid)
       rs"

subsection \<open>Zero divisors in double arithmetic\<close>

text \<open>A double with its special values, rounding left out: a finite value, an infinity
  with its sign (\<^term>\<open>True\<close> for \<open>+inf\<close>), or a NaN. The operations below are those of
  IEEE 754 on these values, finite results being exact. A zero is \<open>+0\<close>, which is what
  the difference of two equal values gives; the only zeros that the code divides by are
  such differences.\<close>

datatype cs_double = Finite real | Infinity bool | NaN

fun ieee_add :: "cs_double \<Rightarrow> cs_double \<Rightarrow> cs_double" where
  "ieee_add (Finite a) (Finite b) = Finite (a + b)"
| "ieee_add (Finite a) (Infinity q) = Infinity q"
| "ieee_add (Infinity p) (Finite b) = Infinity p"
| "ieee_add (Infinity p) (Infinity q) = (if p = q then Infinity p else NaN)"
| "ieee_add NaN y = NaN"
| "ieee_add x NaN = NaN"

fun ieee_mul :: "cs_double \<Rightarrow> cs_double \<Rightarrow> cs_double" where
  "ieee_mul (Finite a) (Finite b) = Finite (a * b)"
| "ieee_mul (Finite a) (Infinity q) = (if a = 0 then NaN else Infinity (q = (0 < a)))"
| "ieee_mul (Infinity p) (Finite b) = (if b = 0 then NaN else Infinity (p = (0 < b)))"
| "ieee_mul (Infinity p) (Infinity q) = Infinity (p = q)"
| "ieee_mul NaN y = NaN"
| "ieee_mul x NaN = NaN"

fun ieee_div :: "cs_double \<Rightarrow> cs_double \<Rightarrow> cs_double" where
  "ieee_div (Finite a) (Finite b) =
     (if b \<noteq> 0 then Finite (a / b) else if a = 0 then NaN else Infinity (0 < a))"
| "ieee_div (Finite a) (Infinity q) = Finite 0"
| "ieee_div (Infinity p) (Finite b) = Infinity (p = (0 \<le> b))"
| "ieee_div (Infinity p) (Infinity q) = NaN"
| "ieee_div NaN y = NaN"
| "ieee_div x NaN = NaN"



text \<open>The value that the loop body of \<^verbatim>\<open>_update_liquid_fraction_binary_alloy\<close> stores
  in \<^verbatim>\<open>g_l[c_id]\<close> for a cell of temperature \<open>temp\<close> and concentration \<open>conc\<close>, with
  the special values: \<^verbatim>\<open>inv_kpm1 = 1./(kp - 1)\<close> and
  \<^verbatim>\<open>eut_slope = 1./(c_eutec - c_eutec_a)\<close>, then 0 for a solid cell,
  \<^verbatim>\<open>1 + inv_kpm1*(temp - t_liquidus)/dTm\<close> for a mushy cell, 1 for a liquid cell and
  \<^verbatim>\<open>(conc - c_eutec_a)*eut_slope\<close> for a eutectic cell.\<close>

definition alloy_g_l_double ::
  "cs_solidification_binary_alloy_t \<Rightarrow> real \<Rightarrow> real \<Rightarrow> cs_double" where
  "alloy_g_l_double alloy temp conc =
     (let (t_liquidus, t_solidus, state) = get_alloy_state alloy temp conc;
          inv_kpm1 = ieee_div (Finite 1) (Finite (kp alloy - 1));
          eut_slope = ieee_div (Finite 1) (Finite (c_eutec alloy - c_eutec_a alloy))
      in case state of
        CS_SOLIDIFICATION_STATE_SOLID \<Rightarrow> Finite 0
      | CS_SOLIDIFICATION_STATE_MUSHY \<Rightarrow>
          (let dTm = temp - t_melt alloy
           in ieee_add (Finite 1)
                (ieee_div (ieee_mul inv_kpm1 (Finite (temp - t_liquidus))) (Finite dTm)))
      | CS_SOLIDIFICATION_STATE_LIQUID \<Rightarrow> Finite 1
      | CS_SOLIDIFICATION_STATE_EUTECTIC \<Rightarrow>
          ieee_mul (Finite (conc - c_eutec_a alloy)) eut_slope
      | CS_SOLIDIFICATION_N_STATES \<Rightarrow> NaN)"

subsection \<open>Concrete values\<close>

text \<open>A mesh of one cell and parameter sets on which the functions are run.\<close>

definition ex_quant :: cs_cdo_quantities_t where
  "ex_quant = \<lparr>n_cells = 1, n_faces = 1, cell_vol = [2], vol_tot = 2\<rparr>"

definition ex_solid :: cs_solidification_t where
  "ex_solid = solidification_create
     \<lparr>g_l := [1], g_l_pre := [1], cell_state := [CS_SOLIDIFICATION_STATE_LIQUID],
      thermal_reaction_coef_array := [0], thermal_source_term_array := [0],
      forcing_mom_array := [0], c_l := [0], c_l_pre := [0], c_l_faces := [0]\<rparr>"

definition ex_fields :: "real \<Rightarrow> real \<Rightarrow> real \<Rightarrow> cs_fields_t" where
  "ex_fields T C C_prev =
     \<lparr>temperature_val = [T], bulk_conc = [C], bulk_conc_prev = [C_prev],
      bulk_conc_f = [C], temp_faces = [T], cell_rho = 1, dt0 = 1\<rparr>"

definition ex_voller :: cs_solidification_voller_t where
  "ex_voller = \<lparr>t_solidus = 1700, t_liquidus = 1730, v_latent_heat = 3, v_forcing_coef = 1600\<rparr>"

text \<open>An alloy as the setter builds it: partition coefficient 1/2, liquidus slope -1,
  eutectic temperature 9 and melting temperature 10, hence \<open>c_eutec = 1\<close> and
  \<open>c_eutec_a = 1/2\<close>.\<close>

definition ex_alloy :: cs_solidification_binary_alloy_t where
  "ex_alloy = binary_alloy_params 0 0 (1 / 2) (- 1) 9 10 0 3 1600"

text \<open>An alloy as the setter builds it with \<open>c_eutec = 0.3\<close> and \<open>c_eutec_a = 0.1\<close>:
  partition coefficient 1/3, liquidus slope -10, eutectic temperature 7 and melting
  temperature 10.\<close>

definition ex_alloy_eutectic :: cs_solidification_binary_alloy_t where
  "ex_alloy_eutectic = binary_alloy_params 0 0 (1 / 3) (- 10) 7 10 0 3 1600"

text \<open>Masks with one bit per flag, in the order of the enumeration.\<close>

definition ex_bits :: cs_solidification_model_bit_t where
  "ex_bits =
     \<lparr>CS_SOLIDIFICATION_MODEL_STOKES = 1,
      CS_SOLIDIFICATION_MODEL_NAVIER_STOKES = 2,
      CS_SOLIDIFICATION_MODEL_USE_TEMPERATURE = 4,
      CS_SOLIDIFICATION_MODEL_USE_ENTHALPY = 8,
      CS_SOLIDIFICATION_MODEL_VOLLER_PRAKASH_87 = 16,
      CS_SOLIDIFICATION_MODEL_BINARY_ALLOY = 32\<rparr>"

text \<open>The module structure after an activation with the Voller and Prakash model
  (together with the Navier-Stokes and temperature flags).\<close>

definition ex_voller_module :: cs_solidification_t where
  "ex_voller_module =
     solidification_create
       \<lparr>model := 22, model_context := Voller_context ex_voller,
        update := Update_liquid_fraction_voller\<rparr>"

text \<open>The Voller parameters above with a negative forcing coefficient, the sign that the
  comment of the setter gives for this argument.\<close>

definition ex_voller_neg :: cs_solidification_voller_t where
  "ex_voller_neg = ex_voller\<lparr>v_forcing_coef := - 1600\<rparr>"


text \<open>Alloys as the setter builds them with a partition coefficient of 1, and with equal
  eutectic and melting temperatures: in both \<open>c_eutec = c_eutec_a\<close>.\<close>

definition ex_alloy_kp_one :: cs_solidification_binary_alloy_t where
  "ex_alloy_kp_one = binary_alloy_params 0 0 1 (- 1) 9 10 0 3 1600"

definition ex_alloy_flat :: cs_solidification_binary_alloy_t where
  "ex_alloy_flat = binary_alloy_params 0 0 (1 / 2) (- 1) 10 10 0 3 1600"

section \<open>Properties\<close>

subsection \<open>Iteration over cells and faces\<close>

lemma for_loop_snoc:
  "for_loop body (xs @ [x]) s =
     (case for_loop body xs s of Inl e \<Rightarrow> Inl e | Inr s' \<Rightarrow> body x s')"
  by (induction xs arbitrary: s) (auto split: sum.splits)


lemma fold_cells_get:
  assumes "\<And>c s. get (body c s) = (get s)[c := val c]"
  shows "get (fold body [0..<n] s) = fold (\<lambda>c xs. xs[c := val c]) [0..<n] (get s)"
  by (induction n) (simp_all add: assms)

lemma fold_list_update_length:
  "length (fold (\<lambda>c xs. xs[c := val c]) [0..<n] xs) = length xs"
  by (induction n) simp_all

lemma fold_list_update_nth:
  "c < n \<Longrightarrow> c < length xs \<Longrightarrow> fold (\<lambda>c xs. xs[c := val c]) [0..<n] xs ! c = val c"
proof (induction n)
  case 0
  then show ?case by simp
next
  case (Suc n)
  show ?case
  proof (cases "c = n")
    case True
    then show ?thesis using Suc.prems by (simp add: fold_list_update_length)
  next
    case False
    then have "c < n" using Suc.prems by simp
    then show ?thesis using Suc False by simp
  qed
qed

lemma fold_cells_nth:
  assumes "\<And>c s. get (body c s) = (get s)[c := val c]"
    and "c < n" and "c < length (get s)"
  shows "get (fold body [0..<n] s) ! c = val c"
  using assms(2,3) by (simp add: fold_cells_get[of get body val, OF assms(1)] fold_list_update_nth)

subsection \<open>The Voller and Prakash updater, cell by cell\<close>

lemma voller_cell_g_l:
  "g_l (voller_cell v eps d i k quant temp c s) =
     (g_l s)[c := (if temp ! c < t_solidus v then 0
                   else if temp ! c > t_liquidus v then 1
                   else (temp ! c - t_solidus v) * d)]"
  by (simp add: voller_cell_def Let_def)

lemma voller_cell_cell_state:
  "cell_state (voller_cell v eps d i k quant temp c s) =
     (cell_state s)[c := (if temp ! c < t_solidus v then CS_SOLIDIFICATION_STATE_SOLID
                   else if temp ! c > t_liquidus v then CS_SOLIDIFICATION_STATE_LIQUID
                   else CS_SOLIDIFICATION_STATE_MUSHY)]"
  by (simp add: voller_cell_def Let_def)

lemma voller_cell_reaction:
  "thermal_reaction_coef_array (voller_cell v eps d i k quant temp c s) =
     (thermal_reaction_coef_array s)[c := (if temp ! c < t_solidus v then 0
                   else if temp ! c > t_liquidus v then 0
                   else k)]"
  by (simp add: voller_cell_def Let_def)

lemma voller_cell_source:
  "thermal_source_term_array (voller_cell v eps d i k quant temp c s) =
     (thermal_source_term_array s)[c := (if temp ! c < t_solidus v then 0
                   else if temp ! c > t_liquidus v then 0
                   else k * temp ! c * cell_vol quant ! c)]"
  by (simp add: voller_cell_def Let_def)

lemma voller_cell_forcing:
  "forcing_mom_array (voller_cell v eps d i k quant temp c s) =
     (forcing_mom_array s)[c := (if temp ! c < t_solidus v then v_forcing_coef v * i
                   else if temp ! c > t_liquidus v then 0
                   else v_forcing_coef v * (1 - (temp ! c - t_solidus v) * d) *
                        (1 - (temp ! c - t_solidus v) * d) /
                        ((temp ! c - t_solidus v) * d * ((temp ! c - t_solidus v) * d) *
                         ((temp ! c - t_solidus v) * d) + eps))]"
  by (simp add: voller_cell_def Let_def)

lemma voller_update_fields:
  "g_l (update_liquid_fraction_voller v eps flds others quant c2p s) =
     g_l (update_liquid_fraction_voller_cells v eps flds quant c2p s)"
  "cell_state (update_liquid_fraction_voller v eps flds others quant c2p s) =
     cell_state (update_liquid_fraction_voller_cells v eps flds quant c2p s)"
  "thermal_reaction_coef_array (update_liquid_fraction_voller v eps flds others quant c2p s) =
     thermal_reaction_coef_array (update_liquid_fraction_voller_cells v eps flds quant c2p s)"
  "thermal_source_term_array (update_liquid_fraction_voller v eps flds others quant c2p s) =
     thermal_source_term_array (update_liquid_fraction_voller_cells v eps flds quant c2p s)"
  "forcing_mom_array (update_liquid_fraction_voller v eps flds others quant c2p s) =
     forcing_mom_array (update_liquid_fraction_voller_cells v eps flds quant c2p s)"
  by (simp_all add: update_liquid_fraction_voller_def Let_def enforce_solid_cells_def)

lemma voller_cells_nth:
  fixes v eps c2p
  assumes "c < n_cells quant" "voller_arrays_allocated quant flds s"
  defines "s' \<equiv> update_liquid_fraction_voller_cells v eps flds quant c2p s"
    and "T \<equiv> temperature_val flds ! c"
    and "d \<equiv> 1 / (t_liquidus v - t_solidus v)"
  shows "g_l s' ! c = (if T < t_solidus v then 0 else if T > t_liquidus v then 1
                       else (T - t_solidus v) * d)"
    and "cell_state s' ! c =
           (if T < t_solidus v then CS_SOLIDIFICATION_STATE_SOLID
            else if T > t_liquidus v then CS_SOLIDIFICATION_STATE_LIQUID
            else CS_SOLIDIFICATION_STATE_MUSHY)"
    and "thermal_reaction_coef_array s' ! c =
           (if T < t_solidus v then 0 else if T > t_liquidus v then 0
            else cell_rho flds * v_latent_heat v * d / dt0 flds)"
    and "thermal_source_term_array s' ! c =
           (if T < t_solidus v then 0 else if T > t_liquidus v then 0
            else cell_rho flds * v_latent_heat v * d / dt0 flds * T * cell_vol quant ! c)"
    and "forcing_mom_array s' ! c =
           (if T < t_solidus v then v_forcing_coef v * (1 / eps)
            else if T > t_liquidus v then 0
            else v_forcing_coef v * (1 - (T - t_solidus v) * d) * (1 - (T - t_solidus v) * d) /
                 ((T - t_solidus v) * d * ((T - t_solidus v) * d) * ((T - t_solidus v) * d)
                  + eps))"
proof -
  have len: "length (g_l s) = n_cells quant" "length (cell_state s) = n_cells quant"
    "length (thermal_reaction_coef_array s) = n_cells quant"
    "length (thermal_source_term_array s) = n_cells quant"
    "length (forcing_mom_array s) = n_cells quant"
    using assms(2) by (simp_all add: voller_arrays_allocated_def)
  show "g_l s' ! c = (if T < t_solidus v then 0 else if T > t_liquidus v then 1
                       else (T - t_solidus v) * d)"
    unfolding s'_def T_def d_def update_liquid_fraction_voller_cells_def Let_def
    by (subst fold_cells_nth[where get = g_l, OF voller_cell_g_l])
       (use assms(1) len in simp_all)
  show "cell_state s' ! c =
           (if T < t_solidus v then CS_SOLIDIFICATION_STATE_SOLID
            else if T > t_liquidus v then CS_SOLIDIFICATION_STATE_LIQUID
            else CS_SOLIDIFICATION_STATE_MUSHY)"
    unfolding s'_def T_def d_def update_liquid_fraction_voller_cells_def Let_def
    by (subst fold_cells_nth[where get = cell_state, OF voller_cell_cell_state])
       (use assms(1) len in simp_all)
  show "thermal_reaction_coef_array s' ! c =
           (if T < t_solidus v then 0 else if T > t_liquidus v then 0
            else cell_rho flds * v_latent_heat v * d / dt0 flds)"
    unfolding s'_def T_def d_def update_liquid_fraction_voller_cells_def Let_def
    by (subst fold_cells_nth[where get = thermal_reaction_coef_array, OF voller_cell_reaction])
       (use assms(1) len in simp_all)
  show "thermal_source_term_array s' ! c =
           (if T < t_solidus v then 0 else if T > t_liquidus v then 0
            else cell_rho flds * v_latent_heat v * d / dt0 flds * T * cell_vol quant ! c)"
    unfolding s'_def T_def d_def update_liquid_fraction_voller_cells_def Let_def
    by (subst fold_cells_nth[where get = thermal_source_term_array, OF voller_cell_source])
       (use assms(1) len in simp_all)
  show "forcing_mom_array s' ! c =
           (if T < t_solidus v then v_forcing_coef v * (1 / eps)
            else if T > t_liquidus v then 0
            else v_forcing_coef v * (1 - (T - t_solidus v) * d) * (1 - (T - t_solidus v) * d) /
                 ((T - t_solidus v) * d * ((T - t_solidus v) * d) * ((T - t_solidus v) * d)
                  + eps))"
    unfolding s'_def T_def d_def update_liquid_fraction_voller_cells_def Let_def
    by (subst fold_cells_nth[where get = forcing_mom_array, OF voller_cell_forcing])
       (use assms(1) len in simp_all)
qed

text \<open>
  Claim C1. In a pass of the Voller and Prakash updater every cell \<open>c_id\<close> is treated by
  the first case that applies, in the order of the source. If its temperature \<open>T\<close> is
  strictly below \<open>t_solidus\<close>: liquid fraction 0, state SOLID, both thermal
  coefficients 0, forcing coefficient \<open>forcing_coef / forcing_eps\<close>. Else, if \<open>T\<close> is
  strictly above \<open>t_liquidus\<close>: liquid fraction 1, state LIQUID, thermal terms 0,
  forcing coefficient 0. Otherwise: liquid fraction
  \<open>g = (T - t_solidus) / (t_liquidus - t_solidus)\<close>, reaction coefficient
  \<open>rho * latent_heat / ((t_liquidus - t_solidus) * dt)\<close>, source term that coefficient
  times \<open>T\<close> times the cell volume, state MUSHY, forcing coefficient
  \<open>forcing_coef * (1 - g)\<^sup>2 / (g ^ 3 + forcing_eps)\<close>. The scenario of the spec
  (1700, 1730, 1715, default \<open>forcing_eps\<close>) is the witness.
\<close>

theorem voller_update_per_cell:
  assumes "c_id < n_cells quant" and "voller_arrays_allocated quant flds solid"
  shows
    "let s' = update_liquid_fraction_voller v_model forcing_eps flds others quant
                cur2prev solid;
         T = temperature_val flds ! c_id
     in
     (T < t_solidus v_model \<longrightarrow>
        g_l s' ! c_id = 0 \<and>
        cell_state s' ! c_id = CS_SOLIDIFICATION_STATE_SOLID \<and>
        thermal_reaction_coef_array s' ! c_id = 0 \<and>
        thermal_source_term_array s' ! c_id = 0 \<and>
        forcing_mom_array s' ! c_id = v_forcing_coef v_model / forcing_eps) \<and>
     (\<not> T < t_solidus v_model \<and> T > t_liquidus v_model \<longrightarrow>
        g_l s' ! c_id = 1 \<and>
        cell_state s' ! c_id = CS_SOLIDIFICATION_STATE_LIQUID \<and>
        thermal_reaction_coef_array s' ! c_id = 0 \<and>
        thermal_source_term_array s' ! c_id = 0 \<and>
        forcing_mom_array s' ! c_id = 0) \<and>
     (\<not> T < t_solidus v_model \<and> \<not> T > t_liquidus v_model \<longrightarrow>
        g_l s' ! c_id = (T - t_solidus v_model) / (t_liquidus v_model - t_solidus v_model) \<and>
        thermal_reaction_coef_array s' ! c_id =
          cell_rho flds * v_latent_heat v_model /
            ((t_liquidus v_model - t_solidus v_model) * dt0 flds) \<and>
        thermal_source_term_array s' ! c_id =
          thermal_reaction_coef_array s' ! c_id * T * cell_vol quant ! c_id \<and>
        cell_state s' ! c_id = CS_SOLIDIFICATION_STATE_MUSHY \<and>
        forcing_mom_array s' ! c_id =
          v_forcing_coef v_model * (1 - g_l s' ! c_id)\<^sup>2 /
            ((g_l s' ! c_id) ^ 3 + forcing_eps))"
  unfolding Let_def voller_update_fields
  by (simp add: voller_cells_nth[OF assms(1,2)] power2_eq_square power3_eq_cube)

theorem voller_update_per_cell_witness:
  "(0::nat) < n_cells ex_quant \<and>
   voller_arrays_allocated ex_quant (ex_fields 1715 0 0) ex_solid \<and>
   (let s' = update_liquid_fraction_voller ex_voller cs_solidification_forcing_eps_init
               (ex_fields 1715 0 0) [] ex_quant True ex_solid
    in g_l s' ! 0 = 1 / 2 \<and>
       cell_state s' ! 0 = CS_SOLIDIFICATION_STATE_MUSHY \<and>
       forcing_mom_array s' ! 0 = 1600 * (1 / 4) / (1 / 8 + 1 / 1000))"
proof -
  have h1: "(0::nat) < n_cells ex_quant" by (simp add: ex_quant_def)
  have h2: "voller_arrays_allocated ex_quant (ex_fields 1715 0 0) ex_solid"
    by (simp add: voller_arrays_allocated_def ex_quant_def ex_fields_def ex_solid_def)
  let ?s = "update_liquid_fraction_voller ex_voller cs_solidification_forcing_eps_init
               (ex_fields 1715 0 0) [] ex_quant True ex_solid"
  note t = voller_update_per_cell[OF h1 h2, of ex_voller
        cs_solidification_forcing_eps_init "[]" True, unfolded Let_def]
  have g: "g_l ?s ! 0 = 1 / 2"
    using t by (simp add: ex_fields_def ex_voller_def)
  have st: "cell_state ?s ! 0 = CS_SOLIDIFICATION_STATE_MUSHY"
    using t by (simp add: ex_fields_def ex_voller_def)
  have "forcing_mom_array ?s ! 0 =
          v_forcing_coef ex_voller * (1 - g_l ?s ! 0)\<^sup>2 /
            ((g_l ?s ! 0) ^ 3 + cs_solidification_forcing_eps_init)"
    using t by (simp add: ex_fields_def ex_voller_def)
  then have f: "forcing_mom_array ?s ! 0 = 1600 * (1 / 4) / (1 / 8 + 1 / 1000)"
    unfolding g by (simp add: ex_voller_def cs_solidification_forcing_eps_init_def
          power2_eq_square power3_eq_cube)
  show ?thesis using h1 h2 g st f by (simp add: Let_def)
qed

subsection \<open>The phase diagram\<close>

lemma binary_alloy_params_inv_kp:
  "inv_kp (binary_alloy_params conc0 beta kp_arg mliq te tm sd lh fc) =
     1 / kp (binary_alloy_params conc0 beta kp_arg mliq te tm sd lh fc)"
  by (simp add: binary_alloy_params_def Let_def)

text \<open>
  Claim C2. For every temperature \<open>T\<close>, every concentration \<open>C\<close> and every alloy
  structure whose \<open>inv_kp\<close> is the reciprocal of \<open>kp\<close> (the setter stores it so),
  \<^verbatim>\<open>_get_alloy_state\<close> returns what the rules of the specification give:
  \<open>t_liquidus = t_melt + ml * C\<close>; \<open>t_solidus = t_melt + ml * C / kp\<close> when
  \<open>C < c_eutec_a\<close> and \<open>t_eutec\<close> otherwise; and the state, by region of \<open>C\<close> and then
  by \<open>T\<close>, with the rules taken in the order written.
\<close>

theorem get_alloy_state_spec:
  assumes "inv_kp alloy = 1 / kp alloy"
  shows "get_alloy_state alloy T C = spec_alloy_state alloy T C"
  using assms by (auto simp add: get_alloy_state_def spec_alloy_state_def Let_def)

theorem get_alloy_state_spec_witness:
  "inv_kp ex_alloy = 1 / kp ex_alloy \<and>
   get_alloy_state ex_alloy 9 (3 / 4) = spec_alloy_state ex_alloy 9 (3 / 4) \<and>
   get_alloy_state ex_alloy 9 (3 / 4) = (37 / 4, 9, CS_SOLIDIFICATION_STATE_EUTECTIC)"
proof -
  have h: "inv_kp ex_alloy = 1 / kp ex_alloy"
    by (simp add: ex_alloy_def binary_alloy_params_def Let_def)
  have "spec_alloy_state ex_alloy 9 (3 / 4) = (37 / 4, 9, CS_SOLIDIFICATION_STATE_EUTECTIC)"
    by (simp add: spec_alloy_state_def ex_alloy_def binary_alloy_params_def Let_def
         cs_solidification_eutectic_threshold_def)
  then show ?thesis using h get_alloy_state_spec[OF h, of 9 "3 / 4"] by simp
qed

text \<open>
  Claim C4, as stated, fails: beyond the eutectic concentration the solidus returned is
  the eutectic temperature while the liquidus keeps decreasing along its slope. With
  \<open>c_eutec = 1\<close> and \<open>C = 2\<close> the function returns \<open>t_solidus = 9\<close> and
  \<open>t_liquidus = 8\<close>.
\<close>

theorem get_alloy_state_solidus_above_liquidus:
  "\<not> fst (snd (get_alloy_state ex_alloy 0 2)) \<le> fst (get_alloy_state ex_alloy 0 2)"
  by (simp add: get_alloy_state_def ex_alloy_def binary_alloy_params_def Let_def)

text \<open>
  Claim C4, amended. For every \<open>(T, C)\<close> and every alloy structure the state returned
  is one of SOLID, MUSHY, LIQUID, EUTECTIC (never the "no state" value). The returned
  \<open>t_solidus\<close> is at most the returned \<open>t_liquidus\<close> for a phase diagram with negative
  liquidus slope, partition coefficient in \<open>(0, 1]\<close>, \<open>inv_kp = 1 / kp\<close> and the eutectic
  point on the liquidus (all of which the setter establishes from \<open>ml < 0\<close> and
  \<open>0 < kp \<le> 1\<close>), when \<open>0 \<le> C \<le> c_eutec\<close>.
\<close>

theorem get_alloy_state_partition:
  "snd (snd (get_alloy_state alloy T C)) \<noteq> CS_SOLIDIFICATION_N_STATES \<and>
   (ml alloy < 0 \<and> 0 < kp alloy \<and> kp alloy \<le> 1 \<and> inv_kp alloy = 1 / kp alloy \<and>
    t_eutec alloy = t_melt alloy + ml alloy * c_eutec alloy \<and>
    0 \<le> C \<and> C \<le> c_eutec alloy \<longrightarrow>
    fst (snd (get_alloy_state alloy T C)) \<le> fst (get_alloy_state alloy T C))"
proof (intro conjI impI)
  show "snd (snd (get_alloy_state alloy T C)) \<noteq> CS_SOLIDIFICATION_N_STATES"
    by (simp add: get_alloy_state_def Let_def)
next
  assume h: "ml alloy < 0 \<and> 0 < kp alloy \<and> kp alloy \<le> 1 \<and> inv_kp alloy = 1 / kp alloy \<and>
    t_eutec alloy = t_melt alloy + ml alloy * c_eutec alloy \<and>
    0 \<le> C \<and> C \<le> c_eutec alloy"
  have x: "ml alloy * C \<le> 0" using h by (simp add: mult_le_0_iff)
  have "1 \<le> 1 / kp alloy" using h by simp
  then have "ml alloy * C * (1 / kp alloy) \<le> ml alloy * C * 1"
    using x by (rule mult_left_mono_neg)
  then have a: "ml alloy * C * inv_kp alloy \<le> ml alloy * C" using h by simp
  have b: "ml alloy * c_eutec alloy \<le> ml alloy * C"
    using h by (simp add: mult_left_mono_neg)
  show "fst (snd (get_alloy_state alloy T C)) \<le> fst (get_alloy_state alloy T C)"
    using a b h by (simp add: get_alloy_state_def Let_def)
qed

text \<open>The setter establishes these conditions from \<open>ml < 0\<close> and \<open>0 < kp \<le> 1\<close>.\<close>

lemma binary_alloy_params_well_formed:
  assumes "mliq < 0" and "0 < kp_arg" and "kp_arg \<le> 1"
    and "alloy = binary_alloy_params conc0 beta kp_arg mliq te tm sd lh fc"
  shows "ml alloy < 0 \<and> 0 < kp alloy \<and> kp alloy \<le> 1 \<and> inv_kp alloy = 1 / kp alloy \<and>
         t_eutec alloy = t_melt alloy + ml alloy * c_eutec alloy"
  using assms by (simp add: binary_alloy_params_def Let_def)

theorem get_alloy_state_partition_witness:
  "snd (snd (get_alloy_state ex_alloy 9 (3 / 4))) \<noteq> CS_SOLIDIFICATION_N_STATES \<and>
   (ml ex_alloy < 0 \<and> 0 < kp ex_alloy \<and> kp ex_alloy \<le> 1 \<and> inv_kp ex_alloy = 1 / kp ex_alloy \<and>
    t_eutec ex_alloy = t_melt ex_alloy + ml ex_alloy * c_eutec ex_alloy \<and>
    (0::real) \<le> 3 / 4 \<and> 3 / 4 \<le> c_eutec ex_alloy) \<and>
    fst (snd (get_alloy_state ex_alloy 9 (3 / 4))) \<le> fst (get_alloy_state ex_alloy 9 (3 / 4))"
proof -
  have h: "ml ex_alloy < 0 \<and> 0 < kp ex_alloy \<and> kp ex_alloy \<le> 1 \<and> inv_kp ex_alloy = 1 / kp ex_alloy \<and>
    t_eutec ex_alloy = t_melt ex_alloy + ml ex_alloy * c_eutec ex_alloy \<and>
    (0::real) \<le> 3 / 4 \<and> 3 / 4 \<le> c_eutec ex_alloy"
    by (simp add: ex_alloy_def binary_alloy_params_def Let_def)
  show ?thesis
    using h get_alloy_state_partition[of ex_alloy 9 "3 / 4"] by blast
qed

subsection \<open>Solid cells and the liquid fraction in the Voller model\<close>

text \<open>
  Claim C3, as stated, fails from right to left: a cell whose temperature equals
  \<open>t_solidus\<close> takes the mushy branch (the solid branch needs \<open>T < t_solidus\<close>), where
  its liquid fraction is \<open>(T - t_solidus) * dgldT = 0\<close>. With \<open>t_solidus = 1700\<close>,
  \<open>t_liquidus = 1730\<close> and \<open>T = 1700\<close> the cell is tagged MUSHY with liquid fraction 0.
\<close>

theorem voller_mushy_with_zero_liquid_fraction:
  "\<not> (cell_state (update_liquid_fraction_voller ex_voller cs_solidification_forcing_eps_init
          (ex_fields 1700 0 0) [] ex_quant True ex_solid) ! 0 = CS_SOLIDIFICATION_STATE_SOLID
      \<longleftrightarrow>
      g_l (update_liquid_fraction_voller ex_voller cs_solidification_forcing_eps_init
          (ex_fields 1700 0 0) [] ex_quant True ex_solid) ! 0 = 0)"
  by (simp add: update_liquid_fraction_voller_def update_liquid_fraction_voller_cells_def
      voller_cell_def ex_voller_def ex_fields_def ex_quant_def ex_solid_def
      solidification_create_def Let_def incr_def cs_parall_sum_def enforce_solid_cells_def)

text \<open>
  Claim C3, amended. After a pass of the Voller updater, for every cell: a cell tagged
  SOLID has liquid fraction 0; a cell with liquid fraction 0 is tagged SOLID, or its
  temperature equals \<open>t_solidus\<close> and it is tagged MUSHY.
\<close>

theorem voller_solid_liquid_fraction:
  assumes "c_id < n_cells quant" and "voller_arrays_allocated quant flds solid"
  shows
    "let s' = update_liquid_fraction_voller v_model forcing_eps flds others quant
                cur2prev solid
     in (cell_state s' ! c_id = CS_SOLIDIFICATION_STATE_SOLID \<longrightarrow> g_l s' ! c_id = 0) \<and>
        (g_l s' ! c_id = 0 \<longrightarrow>
           cell_state s' ! c_id = CS_SOLIDIFICATION_STATE_SOLID \<or>
           cell_state s' ! c_id = CS_SOLIDIFICATION_STATE_MUSHY \<and>
           temperature_val flds ! c_id = t_solidus v_model)"
  unfolding Let_def voller_update_fields
  by (auto simp add: voller_cells_nth[OF assms(1,2)])

theorem voller_solid_liquid_fraction_witness:
  "(0::nat) < n_cells ex_quant \<and>
   voller_arrays_allocated ex_quant (ex_fields 1600 0 0) ex_solid \<and>
   (let s' = update_liquid_fraction_voller ex_voller cs_solidification_forcing_eps_init
               (ex_fields 1600 0 0) [] ex_quant True ex_solid
    in cell_state s' ! 0 = CS_SOLIDIFICATION_STATE_SOLID \<and> g_l s' ! 0 = 0)"
proof -
  have h1: "(0::nat) < n_cells ex_quant" by (simp add: ex_quant_def)
  have h2: "voller_arrays_allocated ex_quant (ex_fields 1600 0 0) ex_solid"
    by (simp add: voller_arrays_allocated_def ex_quant_def ex_fields_def ex_solid_def)
  let ?s = "update_liquid_fraction_voller ex_voller cs_solidification_forcing_eps_init
               (ex_fields 1600 0 0) [] ex_quant True ex_solid"
  have st: "cell_state ?s ! 0 = CS_SOLIDIFICATION_STATE_SOLID"
    by (simp add: update_liquid_fraction_voller_def update_liquid_fraction_voller_cells_def
      voller_cell_def ex_voller_def ex_fields_def ex_quant_def ex_solid_def
      solidification_create_def Let_def incr_def cs_parall_sum_def enforce_solid_cells_def)
  have "g_l ?s ! 0 = 0"
    using st voller_solid_liquid_fraction[OF h1 h2, of ex_voller
        cs_solidification_forcing_eps_init "[]" True]
    by (simp add: Let_def)
  then show ?thesis using h1 h2 st by (simp add: Let_def)
qed

subsection \<open>The loop on cells of the binary alloy updater\<close>

lemma for_loop_cells:
  assumes step: "\<And>c s. c < n \<Longrightarrow> I s \<Longrightarrow>
            \<exists>s'. body c s = Inr s' \<and> I s' \<and> (\<forall>j. j \<noteq> c \<longrightarrow> view s' j = view s j) \<and>
                 Q c (view s' c)"
    and "I s"
  shows "\<exists>s'. for_loop body [0..<n] s = Inr s' \<and> I s' \<and> (\<forall>j\<ge>n. view s' j = view s j) \<and>
            (\<forall>c<n. Q c (view s' c))"
  using assms
proof (induction n)
  case 0
  then show ?case by simp
next
  case (Suc n)
  have "\<And>c s. c < n \<Longrightarrow> I s \<Longrightarrow>
            \<exists>s'. body c s = Inr s' \<and> I s' \<and> (\<forall>j. j \<noteq> c \<longrightarrow> view s' j = view s j) \<and>
                 Q c (view s' c)"
    using Suc.prems(1) by (meson less_SucI)
  from Suc.IH[OF this Suc.prems(2)] obtain s1 where s1: "for_loop body [0..<n] s = Inr s1"
    "I s1" "\<forall>j\<ge>n. view s1 j = view s j" "\<forall>c<n. Q c (view s1 c)" by blast
  from Suc.prems(1)[of n s1] s1(2) obtain s2 where s2: "body n s1 = Inr s2" "I s2"
    "\<forall>j. j \<noteq> n \<longrightarrow> view s2 j = view s1 j" "Q n (view s2 n)" by auto
  have run: "for_loop body [0..<Suc n] s = Inr s2"
    by (simp add: for_loop_snoc s1(1) s2(1))
  have "\<forall>c<Suc n. Q c (view s2 c)"
  proof (intro allI impI)
    fix c assume c: "c < Suc n"
    show "Q c (view s2 c)"
    proof (cases "c = n")
      case True
      then show ?thesis using s2(4) by simp
    next
      case False
      then have "c < n" using c by simp
      then show ?thesis using s1(4) s2(3) False by simp
    qed
  qed
  moreover have "\<forall>j\<ge>Suc n. view s2 j = view s j"
    using s1(3) s2(3) by simp
  ultimately show ?case using run s2(2) by simp
qed

lemma get_alloy_state_cases:
  "snd (snd (get_alloy_state alloy T C)) \<noteq> CS_SOLIDIFICATION_N_STATES"
  by (simp add: get_alloy_state_def Let_def)

lemma alloy_cell_step:
  assumes "c < n_cells quant" and "alloy_arrays_allocated quant flds s"
  shows "\<exists>s'. alloy_cell alloy eps
                (cell_rho flds * latent_heat alloy / dt0 flds) (1 / (kp alloy - 1))
                (1 / (c_eutec alloy - c_eutec_a alloy)) (1 / eps) quant flds c s = Inr s' \<and>
              alloy_arrays_allocated quant flds s' \<and>
              (\<forall>j. j \<noteq> c \<longrightarrow> cell_view s' j = cell_view s j) \<and>
              alloy_cell_post alloy eps flds quant c (cell_view s' c) \<and>
              n_g_cells s' = incr (n_g_cells s) (alloy_bucket alloy flds c) \<and>
              c_l_faces s' = c_l_faces s"
proof -
  obtain tl ts st where gs:
    "get_alloy_state alloy (temperature_val flds ! c) (bulk_conc flds ! c) = (tl, ts, st)"
    by (cases "get_alloy_state alloy (temperature_val flds ! c) (bulk_conc flds ! c)") auto
  have st: "st \<noteq> CS_SOLIDIFICATION_N_STATES"
    using get_alloy_state_cases[of alloy "temperature_val flds ! c" "bulk_conc flds ! c"] gs
    by simp
  have len: "c < length (g_l s)" "c < length (c_l s)" "c < length (cell_state s)"
    "c < length (thermal_reaction_coef_array s)" "c < length (thermal_source_term_array s)"
    "c < length (forcing_mom_array s)"
    using assms by (simp_all add: alloy_arrays_allocated_def voller_arrays_allocated_def)
  show ?thesis
  proof (cases st)
    case CS_SOLIDIFICATION_STATE_SOLID
    then show ?thesis using gs len assms(2)
      by (simp add: alloy_cell_def alloy_cell_post_def cell_view_def alloy_bucket_def
            alloy_arrays_allocated_def voller_arrays_allocated_def Let_def)
  next
    case CS_SOLIDIFICATION_STATE_MUSHY
    then show ?thesis using gs len assms(2)
      by (simp add: alloy_cell_def alloy_cell_post_def cell_view_def alloy_bucket_def
            alloy_arrays_allocated_def voller_arrays_allocated_def Let_def)
  next
    case CS_SOLIDIFICATION_STATE_LIQUID
    then show ?thesis using gs len assms(2)
      by (simp add: alloy_cell_def alloy_cell_post_def cell_view_def alloy_bucket_def
            alloy_arrays_allocated_def voller_arrays_allocated_def Let_def)
  next
    case CS_SOLIDIFICATION_STATE_EUTECTIC
    then show ?thesis using gs len assms(2)
      by (simp add: alloy_cell_def alloy_cell_post_def cell_view_def alloy_bucket_def
            alloy_arrays_allocated_def voller_arrays_allocated_def Let_def)
  next
    case CS_SOLIDIFICATION_N_STATES
    then show ?thesis using st by simp
  qed
qed

lemma for_loop_fold:
  assumes step: "\<And>c s. c < n \<Longrightarrow> I s \<Longrightarrow> \<exists>s'. body c s = Inr s' \<and> I s' \<and> get s' = upd c (get s)"
    and "I s"
  shows "\<exists>s'. for_loop body [0..<n] s = Inr s' \<and> I s' \<and> get s' = fold upd [0..<n] (get s)"
  using assms
proof (induction n)
  case 0
  then show ?case by simp
next
  case (Suc n)
  have "\<And>c s. c < n \<Longrightarrow> I s \<Longrightarrow> \<exists>s'. body c s = Inr s' \<and> I s' \<and> get s' = upd c (get s)"
    using Suc.prems(1) by (meson less_SucI)
  from Suc.IH[OF this Suc.prems(2)] obtain s1 where s1: "for_loop body [0..<n] s = Inr s1"
    "I s1" "get s1 = fold upd [0..<n] (get s)" by blast
  from Suc.prems(1)[of n s1] s1(2) obtain s2 where s2: "body n s1 = Inr s2" "I s2"
    "get s2 = upd n (get s1)" by auto
  show ?case by (simp add: for_loop_snoc s1 s2)
qed

subsection \<open>Counters\<close>

lemma sum_list_incr: "i < length a \<Longrightarrow> sum_list (incr a i) = sum_list a + 1"
  unfolding incr_def
proof (induction a arbitrary: i)
  case Nil
  then show ?case by simp
next
  case (Cons x a)
  then show ?case by (cases i) simp_all
qed

lemma length_incr: "length (incr a i) = length a"
  by (simp add: incr_def)

lemma nth_incr: "k < length a \<Longrightarrow> incr a i ! k = (if k = i then a ! k + 1 else a ! k)"
  by (simp add: incr_def)

lemma fold_incr_length: "length (fold (\<lambda>c a. incr a (bk c)) xs a) = length a"
  by (induction xs arbitrary: a) (simp_all add: length_incr)

lemma fold_incr_nth:
  "k < length a \<Longrightarrow>
   fold (\<lambda>c a. incr a (bk c)) xs a ! k = a ! k + length (filter (\<lambda>c. bk c = k) xs)"
  by (induction xs arbitrary: a) (auto simp add: length_incr nth_incr)

lemma fold_incr_sum:
  "\<forall>c\<in>set xs. bk c < length a \<Longrightarrow>
   sum_list (fold (\<lambda>c a. incr a (bk c)) xs a) = sum_list a + length xs"
  by (induction xs arbitrary: a) (simp_all add: length_incr sum_list_incr)

lemma alloy_bucket_less: "alloy_bucket alloy flds c < 4"
  using get_alloy_state_cases[of alloy "temperature_val flds ! c" "bulk_conc flds ! c"]
  by (cases "snd (snd (get_alloy_state alloy (temperature_val flds ! c) (bulk_conc flds ! c)))")
     (simp_all add: alloy_bucket_def)

lemma alloy_bucket_not_eutectic:
  "alloy_bucket alloy flds c \<noteq> state_id CS_SOLIDIFICATION_STATE_EUTECTIC"
  using get_alloy_state_cases[of alloy "temperature_val flds ! c" "bulk_conc flds ! c"]
  by (cases "snd (snd (get_alloy_state alloy (temperature_val flds ! c) (bulk_conc flds ! c)))")
     (simp_all add: alloy_bucket_def)

lemma voller_bucket_less: "voller_bucket v flds c < 4"
  by (simp add: voller_bucket_def)

lemma voller_bucket_not_eutectic:
  "voller_bucket v flds c \<noteq> state_id CS_SOLIDIFICATION_STATE_EUTECTIC"
  by (simp add: voller_bucket_def)

lemma voller_cell_n_g_cells:
  "n_g_cells (voller_cell v eps d i k quant (temperature_val flds) c s) =
     incr (n_g_cells s) (voller_bucket v flds c)"
  by (simp add: voller_cell_def voller_bucket_def Let_def)

lemma fold_cells_upd:
  assumes "\<And>c s. get (body c s) = upd c (get s)"
  shows "get (fold body xs s) = fold upd xs (get s)"
  by (induction xs arbitrary: s) (simp_all add: assms)

lemma voller_cells_n_g_cells:
  "n_g_cells (update_liquid_fraction_voller_cells v eps flds quant c2p s) =
     fold (\<lambda>c a. incr a (voller_bucket v flds c)) [0..<n_cells quant] (replicate 4 0)"
  unfolding update_liquid_fraction_voller_cells_def Let_def
  by (subst fold_cells_upd[where get = n_g_cells and upd = "\<lambda>c a. incr a (voller_bucket v flds c)",
        OF voller_cell_n_g_cells]) simp

lemma alloy_cells_loop:
  assumes "alloy_arrays_allocated quant flds s"
  shows "\<exists>s1. update_liquid_fraction_binary_alloy_cells alloy eps flds quant c2p s = Inr s1 \<and>
           alloy_arrays_allocated quant flds s1 \<and>
           (\<forall>c<n_cells quant. alloy_cell_post alloy eps flds quant c (cell_view s1 c)) \<and>
           n_g_cells s1 =
             fold (\<lambda>c a. incr a (alloy_bucket alloy flds c)) [0..<n_cells quant]
               (replicate 4 0)"
proof -
  let ?body = "alloy_cell alloy eps
                (cell_rho flds * latent_heat alloy / dt0 flds) (1 / (kp alloy - 1))
                (1 / (c_eutec alloy - c_eutec_a alloy)) (1 / eps) quant flds"
  let ?s0 = "(if c2p then s\<lparr>g_l_pre := g_l s, c_l_pre := c_l s\<rparr> else s)
               \<lparr>n_g_cells := replicate 4 0\<rparr>"
  have run: "update_liquid_fraction_binary_alloy_cells alloy eps flds quant c2p s =
               for_loop ?body [0..<n_cells quant] ?s0"
    by (simp add: update_liquid_fraction_binary_alloy_cells_def Let_def)
  have I0: "alloy_arrays_allocated quant flds ?s0"
    using assms by (simp add: alloy_arrays_allocated_def voller_arrays_allocated_def)
  have "\<exists>s'. for_loop ?body [0..<n_cells quant] ?s0 = Inr s' \<and>
          alloy_arrays_allocated quant flds s' \<and>
          (\<forall>j\<ge>n_cells quant. cell_view s' j = cell_view ?s0 j) \<and>
          (\<forall>c<n_cells quant. alloy_cell_post alloy eps flds quant c (cell_view s' c))"
    by (rule for_loop_cells[where I = "alloy_arrays_allocated quant flds", OF _ I0])
       (use alloy_cell_step in blast)
  then obtain s1 where s1: "for_loop ?body [0..<n_cells quant] ?s0 = Inr s1"
    "alloy_arrays_allocated quant flds s1"
    "\<forall>c<n_cells quant. alloy_cell_post alloy eps flds quant c (cell_view s1 c)" by blast
  have "\<exists>s'. for_loop ?body [0..<n_cells quant] ?s0 = Inr s' \<and>
          alloy_arrays_allocated quant flds s' \<and>
          n_g_cells s' = fold (\<lambda>c a. incr a (alloy_bucket alloy flds c)) [0..<n_cells quant]
                           (n_g_cells ?s0)"
    by (rule for_loop_fold[where I = "alloy_arrays_allocated quant flds", OF _ I0])
       (use alloy_cell_step in blast)
  then have "n_g_cells s1 = fold (\<lambda>c a. incr a (alloy_bucket alloy flds c)) [0..<n_cells quant]
                           (replicate 4 0)"
    using s1(1) by auto
  then show ?thesis using run s1 by simp
qed

lemma fold_const: "fold (\<lambda>c x. x) xs a = a"
  by (induction xs) simp_all

lemma alloy_face_step:
  "\<exists>s'. alloy_face alloy flds f s = Inr s' \<and>
        (cell_view s', n_g_cells s', cell_state s') = (cell_view s, n_g_cells s, cell_state s)"
proof -
  obtain tl ts st where gs:
    "get_alloy_state alloy (temp_faces flds ! f) (bulk_conc_f flds ! f) = (tl, ts, st)"
    by (cases "get_alloy_state alloy (temp_faces flds ! f) (bulk_conc_f flds ! f)") auto
  have "st \<noteq> CS_SOLIDIFICATION_N_STATES"
    using get_alloy_state_cases[of alloy "temp_faces flds ! f" "bulk_conc_f flds ! f"] gs
    by simp
  then show ?thesis using gs
    by (cases st) (simp_all add: alloy_face_def cell_view_def fun_eq_iff Let_def)
qed

lemma alloy_faces_loop:
  "\<exists>s'. for_loop (alloy_face alloy flds) [0..<n] s = Inr s' \<and>
        cell_view s' = cell_view s \<and> n_g_cells s' = n_g_cells s \<and>
        cell_state s' = cell_state s"
proof -
  have "\<exists>s'. for_loop (alloy_face alloy flds) [0..<n] s = Inr s' \<and> True \<and>
          (cell_view s', n_g_cells s', cell_state s') =
            fold (\<lambda>c x. x) [0..<n] (cell_view s, n_g_cells s, cell_state s)"
    by (rule for_loop_fold[where I = "\<lambda>s. True"]) (use alloy_face_step in auto)
  then show ?thesis by (simp add: fold_const)
qed

lemma alloy_update_full:
  assumes "alloy_arrays_allocated quant flds s"
  shows "\<exists>s1 s'. update_liquid_fraction_binary_alloy_cells alloy eps flds quant c2p s = Inr s1 \<and>
           update_liquid_fraction_binary_alloy alloy eps flds others quant c2p s = Inr s' \<and>
           cell_view s' = cell_view s1 \<and> cell_state s' = cell_state s1 \<and>
           n_g_cells s' = cs_parall_sum others (n_g_cells s1)"
proof -
  from alloy_cells_loop[OF assms] obtain s1 where
    s1: "update_liquid_fraction_binary_alloy_cells alloy eps flds quant c2p s = Inr s1"
    by blast
  let ?s2 = "if n_g_cells s1 ! state_id CS_SOLIDIFICATION_STATE_SOLID > 0
             then enforce_solid_cells quant s1 else s1"
  let ?s3 = "?s2\<lparr>n_g_cells := cs_parall_sum others (n_g_cells ?s2)\<rparr>"
  from alloy_faces_loop[of alloy flds "n_faces quant" ?s3] obtain s' where
    s': "for_loop (alloy_face alloy flds) [0..<n_faces quant] ?s3 = Inr s'"
    "cell_view s' = cell_view ?s3" "n_g_cells s' = n_g_cells ?s3"
    "cell_state s' = cell_state ?s3" by blast
  have "update_liquid_fraction_binary_alloy alloy eps flds others quant c2p s = Inr s'"
    using s1 s'(1) by (simp add: update_liquid_fraction_binary_alloy_def Let_def)
  moreover have "cell_view ?s3 = cell_view s1"
    by (simp add: cell_view_def fun_eq_iff enforce_solid_cells_def)
  moreover have "n_g_cells ?s3 = cs_parall_sum others (n_g_cells s1)"
    by (simp add: enforce_solid_cells_def)
  moreover have "cell_state ?s3 = cell_state s1"
    by (simp add: enforce_solid_cells_def)
  ultimately show ?thesis using s1 s' by simp
qed

subsection \<open>Eutectic cells\<close>

text \<open>
  Claim C5. In a pass of the binary alloy updater, for every cell that the phase diagram
  classifies EUTECTIC, with concentration \<open>C\<close> and previous concentration \<open>C_prev\<close>: the
  liquid fraction is set to \<open>(C - c_eutec_a) / (c_eutec - c_eutec_a)\<close>, the liquid
  concentration to \<open>c_eutec\<close>, the thermal reaction coefficient to 0, the thermal source
  term to \<open>cell_vol * (rho * latent_heat / dt) * (C - C_prev) / (c_eutec - c_eutec_a)\<close>,
  and the cell is tagged MUSHY. It is counted as mushy: before the reduction the mushy
  counter is the number of cells that are mushy or eutectic in the phase diagram, while
  the eutectic counter is 0. The pass always returns. The scenario of the spec
  (\<open>c_eutec_a = 0.1\<close>, \<open>c_eutec = 0.3\<close>, \<open>C = 0.2\<close>) is the witness.
\<close>

theorem alloy_update_eutectic_cell:
  assumes "c_id < n_cells quant" and "alloy_arrays_allocated quant flds solid"
    and "snd (snd (get_alloy_state alloy (temperature_val flds ! c_id)
            (bulk_conc flds ! c_id))) = CS_SOLIDIFICATION_STATE_EUTECTIC"
  shows
    "\<exists>s1 s'.
       update_liquid_fraction_binary_alloy_cells alloy forcing_eps flds quant cur2prev solid
         = Inr s1 \<and>
       update_liquid_fraction_binary_alloy alloy forcing_eps flds others quant cur2prev solid
         = Inr s' \<and>
       g_l s' ! c_id =
         (bulk_conc flds ! c_id - c_eutec_a alloy) / (c_eutec alloy - c_eutec_a alloy) \<and>
       c_l s' ! c_id = c_eutec alloy \<and>
       thermal_reaction_coef_array s' ! c_id = 0 \<and>
       thermal_source_term_array s' ! c_id =
         cell_vol quant ! c_id * (cell_rho flds * latent_heat alloy / dt0 flds) *
           (bulk_conc flds ! c_id - bulk_conc_prev flds ! c_id) /
           (c_eutec alloy - c_eutec_a alloy) \<and>
       cell_state s' ! c_id = CS_SOLIDIFICATION_STATE_MUSHY \<and>
       n_g_cells s1 ! state_id CS_SOLIDIFICATION_STATE_MUSHY =
         length (filter
           (\<lambda>c. snd (snd (get_alloy_state alloy (temperature_val flds ! c)
                    (bulk_conc flds ! c))) = CS_SOLIDIFICATION_STATE_MUSHY \<or>
                snd (snd (get_alloy_state alloy (temperature_val flds ! c)
                    (bulk_conc flds ! c))) = CS_SOLIDIFICATION_STATE_EUTECTIC)
           [0..<n_cells quant]) \<and>
       n_g_cells s1 ! state_id CS_SOLIDIFICATION_STATE_EUTECTIC = 0"
proof -
  from alloy_cells_loop[OF assms(2), of alloy forcing_eps cur2prev] obtain s1 where s1:
    "update_liquid_fraction_binary_alloy_cells alloy forcing_eps flds quant cur2prev solid
       = Inr s1"
    "\<forall>c<n_cells quant. alloy_cell_post alloy forcing_eps flds quant c (cell_view s1 c)"
    "n_g_cells s1 =
       fold (\<lambda>c a. incr a (alloy_bucket alloy flds c)) [0..<n_cells quant] (replicate 4 0)"
    by blast
  from alloy_update_full[OF assms(2), of alloy forcing_eps cur2prev others] s1(1)
  obtain s' where s':
    "update_liquid_fraction_binary_alloy alloy forcing_eps flds others quant cur2prev solid
       = Inr s'"
    "cell_view s' = cell_view s1" by auto
  have post: "alloy_cell_post alloy forcing_eps flds quant c_id (cell_view s' c_id)"
    using s1(2) assms(1) s'(2) by simp
  have vals: "g_l s' ! c_id =
         (bulk_conc flds ! c_id - c_eutec_a alloy) / (c_eutec alloy - c_eutec_a alloy)"
    "c_l s' ! c_id = c_eutec alloy"
    "thermal_reaction_coef_array s' ! c_id = 0"
    "thermal_source_term_array s' ! c_id =
         cell_vol quant ! c_id * (cell_rho flds * latent_heat alloy / dt0 flds) *
           (bulk_conc flds ! c_id - bulk_conc_prev flds ! c_id) /
           (c_eutec alloy - c_eutec_a alloy)"
    "cell_state s' ! c_id = CS_SOLIDIFICATION_STATE_MUSHY"
    using post assms(3) by (simp_all add: alloy_cell_post_def cell_view_def Let_def)
  have bk: "\<And>c. (alloy_bucket alloy flds c = Suc 0) =
      (snd (snd (get_alloy_state alloy (temperature_val flds ! c)
                    (bulk_conc flds ! c))) = CS_SOLIDIFICATION_STATE_MUSHY \<or>
       snd (snd (get_alloy_state alloy (temperature_val flds ! c)
                    (bulk_conc flds ! c))) = CS_SOLIDIFICATION_STATE_EUTECTIC)"
    by (simp add: alloy_bucket_def split: cs_solidification_state_t.splits)
  have m: "n_g_cells s1 ! state_id CS_SOLIDIFICATION_STATE_MUSHY =
         length (filter
           (\<lambda>c. snd (snd (get_alloy_state alloy (temperature_val flds ! c)
                    (bulk_conc flds ! c))) = CS_SOLIDIFICATION_STATE_MUSHY \<or>
                snd (snd (get_alloy_state alloy (temperature_val flds ! c)
                    (bulk_conc flds ! c))) = CS_SOLIDIFICATION_STATE_EUTECTIC)
           [0..<n_cells quant])"
    unfolding s1(3) by (subst fold_incr_nth) (simp_all add: bk)
  have e: "n_g_cells s1 ! state_id CS_SOLIDIFICATION_STATE_EUTECTIC = 0"
    unfolding s1(3)
    by (subst fold_incr_nth) (simp_all add: alloy_bucket_not_eutectic[simplified])
  show ?thesis using s1(1) s'(1) vals m e by simp
qed

theorem alloy_update_eutectic_cell_witness:
  "(0::nat) < n_cells ex_quant \<and>
   alloy_arrays_allocated ex_quant (ex_fields 7 (1 / 5) (1 / 4)) ex_solid \<and>
   snd (snd (get_alloy_state ex_alloy_eutectic 7 (1 / 5))) = CS_SOLIDIFICATION_STATE_EUTECTIC \<and>
   c_eutec_a ex_alloy_eutectic = 1 / 10 \<and> c_eutec ex_alloy_eutectic = 3 / 10 \<and>
   (\<exists>s'. update_liquid_fraction_binary_alloy ex_alloy_eutectic
            cs_solidification_forcing_eps_init (ex_fields 7 (1 / 5) (1 / 4)) [] ex_quant
            True ex_solid = Inr s' \<and>
         g_l s' ! 0 = 1 / 2 \<and> c_l s' ! 0 = 3 / 10 \<and>
         cell_state s' ! 0 = CS_SOLIDIFICATION_STATE_MUSHY)"
proof -
  have h1: "(0::nat) < n_cells ex_quant" by (simp add: ex_quant_def)
  have h2: "alloy_arrays_allocated ex_quant (ex_fields 7 (1 / 5) (1 / 4)) ex_solid"
    by (simp add: alloy_arrays_allocated_def voller_arrays_allocated_def ex_quant_def
          ex_fields_def ex_solid_def)
  have c: "c_eutec_a ex_alloy_eutectic = 1 / 10" "c_eutec ex_alloy_eutectic = 3 / 10"
    by (simp_all add: ex_alloy_eutectic_def binary_alloy_params_def Let_def)
  have h3: "snd (snd (get_alloy_state ex_alloy_eutectic
              (temperature_val (ex_fields 7 (1 / 5) (1 / 4)) ! 0)
              (bulk_conc (ex_fields 7 (1 / 5) (1 / 4)) ! 0))) = CS_SOLIDIFICATION_STATE_EUTECTIC"
    by (simp add: get_alloy_state_def ex_alloy_eutectic_def binary_alloy_params_def Let_def
          ex_fields_def cs_solidification_eutectic_threshold_def)
  from alloy_update_eutectic_cell[OF h1 h2 h3, of cs_solidification_forcing_eps_init True "[]"]
  obtain s' where s':
    "update_liquid_fraction_binary_alloy ex_alloy_eutectic
       cs_solidification_forcing_eps_init (ex_fields 7 (1 / 5) (1 / 4)) [] ex_quant
       True ex_solid = Inr s'"
    "g_l s' ! 0 =
       (bulk_conc (ex_fields 7 (1 / 5) (1 / 4)) ! 0 - c_eutec_a ex_alloy_eutectic) /
       (c_eutec ex_alloy_eutectic - c_eutec_a ex_alloy_eutectic)"
    "c_l s' ! 0 = c_eutec ex_alloy_eutectic"
    "cell_state s' ! 0 = CS_SOLIDIFICATION_STATE_MUSHY"
    by blast
  have "g_l s' ! 0 = 1 / 2" using s'(2) by (simp add: c ex_fields_def)
  moreover have "c_l s' ! 0 = 3 / 10" using s'(3) by (simp add: c)
  moreover have "snd (snd (get_alloy_state ex_alloy_eutectic 7 (1 / 5))) =
      CS_SOLIDIFICATION_STATE_EUTECTIC"
    using h3 by (simp add: ex_fields_def)
  ultimately show ?thesis using h1 h2 c s'(1) s'(4) by blast
qed

subsection \<open>The parallel sum\<close>

lemma sum_list_map2_add:
  fixes v w :: "('a::comm_monoid_add) list"
  shows "length v = length w \<Longrightarrow> sum_list (map2 (+) v w) = sum_list v + sum_list w"
  by (induction v w rule: list_induct2) (simp_all add: algebra_simps)

lemma cs_parall_sum_length:
  "\<forall>v\<in>set others. length v = length loc \<Longrightarrow> length (cs_parall_sum others loc) = length loc"
  by (induction others) (simp_all add: cs_parall_sum_def)

lemma cs_parall_sum_sum_list:
  fixes loc :: "('a::comm_monoid_add) list"
  shows "\<forall>v\<in>set others. length v = length loc \<Longrightarrow>
   sum_list (cs_parall_sum others loc) = sum_list loc + sum_list (map sum_list others)"
proof (induction others)
  case Nil
  then show ?case by (simp add: cs_parall_sum_def)
next
  case (Cons v others)
  then have len: "length v = length (cs_parall_sum others loc)"
    by (simp add: cs_parall_sum_length)
  have "cs_parall_sum (v # others) loc = map2 (+) v (cs_parall_sum others loc)"
    by (simp add: cs_parall_sum_def)
  then show ?case using Cons len by (simp add: sum_list_map2_add algebra_simps)
qed

lemma cs_parall_sum_nth:
  fixes loc :: "('a::comm_monoid_add) list"
  shows "\<forall>v\<in>set others. length v = length loc \<Longrightarrow> k < length loc \<Longrightarrow>
   cs_parall_sum others loc ! k = loc ! k + sum_list (map (\<lambda>v. v ! k) others)"
proof (induction others)
  case Nil
  then show ?case by (simp add: cs_parall_sum_def)
next
  case (Cons v others)
  then have len: "length v = length (cs_parall_sum others loc)"
    by (simp add: cs_parall_sum_length)
  have "cs_parall_sum (v # others) loc = map2 (+) v (cs_parall_sum others loc)"
    by (simp add: cs_parall_sum_def)
  then show ?case using Cons len by (simp add: algebra_simps)
qed

subsection \<open>Conservation of the number of cells\<close>

lemma alloy_cell_counts:
  "\<exists>s'. alloy_cell alloy eps rhoLovdt inv_kpm1 eut_slope inv_eps quant flds c s = Inr s' \<and>
        n_g_cells s' = incr (n_g_cells s) (alloy_bucket alloy flds c)"
proof -
  obtain tl ts st where gs:
    "get_alloy_state alloy (temperature_val flds ! c) (bulk_conc flds ! c) = (tl, ts, st)"
    by (cases "get_alloy_state alloy (temperature_val flds ! c) (bulk_conc flds ! c)") auto
  have "st \<noteq> CS_SOLIDIFICATION_N_STATES"
    using get_alloy_state_cases[of alloy "temperature_val flds ! c" "bulk_conc flds ! c"] gs
    by simp
  then show ?thesis using gs
    by (cases st) (simp_all add: alloy_cell_def alloy_bucket_def Let_def)
qed

lemma alloy_cells_counts:
  "\<exists>s1. update_liquid_fraction_binary_alloy_cells alloy eps flds quant c2p s = Inr s1 \<and>
         n_g_cells s1 =
           fold (\<lambda>c a. incr a (alloy_bucket alloy flds c)) [0..<n_cells quant]
             (replicate 4 0)"
proof -
  let ?body = "alloy_cell alloy eps
                (cell_rho flds * latent_heat alloy / dt0 flds) (1 / (kp alloy - 1))
                (1 / (c_eutec alloy - c_eutec_a alloy)) (1 / eps) quant flds"
  let ?s0 = "(if c2p then s\<lparr>g_l_pre := g_l s, c_l_pre := c_l s\<rparr> else s)
               \<lparr>n_g_cells := replicate 4 0\<rparr>"
  have "\<exists>s'. for_loop ?body [0..<n_cells quant] ?s0 = Inr s' \<and> True \<and>
          n_g_cells s' = fold (\<lambda>c a. incr a (alloy_bucket alloy flds c)) [0..<n_cells quant]
                           (n_g_cells ?s0)"
    by (rule for_loop_fold[where I = "\<lambda>s. True"]) (use alloy_cell_counts in auto)
  then show ?thesis
    by (simp add: update_liquid_fraction_binary_alloy_cells_def Let_def)
qed

lemma alloy_update_counts:
  "\<exists>s1 s'. update_liquid_fraction_binary_alloy_cells alloy eps flds quant c2p s = Inr s1 \<and>
     update_liquid_fraction_binary_alloy alloy eps flds others quant c2p s = Inr s' \<and>
     cell_state s' = cell_state s1 \<and>
     n_g_cells s' = cs_parall_sum others (n_g_cells s1)"
proof -
  from alloy_cells_counts[of alloy eps flds quant c2p s] obtain s1 where
    s1: "update_liquid_fraction_binary_alloy_cells alloy eps flds quant c2p s = Inr s1"
    by blast
  let ?s2 = "if n_g_cells s1 ! state_id CS_SOLIDIFICATION_STATE_SOLID > 0
             then enforce_solid_cells quant s1 else s1"
  let ?s3 = "?s2\<lparr>n_g_cells := cs_parall_sum others (n_g_cells ?s2)\<rparr>"
  from alloy_faces_loop[of alloy flds "n_faces quant" ?s3] obtain s' where
    s': "for_loop (alloy_face alloy flds) [0..<n_faces quant] ?s3 = Inr s'"
    "n_g_cells s' = n_g_cells ?s3" "cell_state s' = cell_state ?s3" by blast
  have "update_liquid_fraction_binary_alloy alloy eps flds others quant c2p s = Inr s'"
    using s1 s'(1) by (simp add: update_liquid_fraction_binary_alloy_def Let_def)
  moreover have "n_g_cells ?s3 = cs_parall_sum others (n_g_cells s1)"
    by (simp add: enforce_solid_cells_def)
  moreover have "cell_state ?s3 = cell_state s1"
    by (simp add: enforce_solid_cells_def)
  ultimately show ?thesis using s1 s' by simp
qed

lemma voller_local_counts_props:
  "length (voller_local_counts v eps c2p r) = 4"
  "sum_list (voller_local_counts v eps c2p r) = (case r of (flds, q, solid) \<Rightarrow> n_cells q)"
  "voller_local_counts v eps c2p r ! 3 = 0"
  by (cases r; simp add: voller_local_counts_def voller_cells_n_g_cells fold_incr_length
        fold_incr_sum voller_bucket_less fold_incr_nth voller_bucket_not_eutectic[simplified])+

lemma alloy_local_counts_props:
  "length (alloy_local_counts alloy eps c2p r) = 4"
  "sum_list (alloy_local_counts alloy eps c2p r) = (case r of (flds, q, solid) \<Rightarrow> n_cells q)"
  "alloy_local_counts alloy eps c2p r ! 3 = 0"
proof -
  obtain flds q solid where r: "r = (flds, q, solid)" by (cases r) auto
  from alloy_cells_counts[of alloy eps flds q c2p solid] obtain s1 where
    s1: "update_liquid_fraction_binary_alloy_cells alloy eps flds q c2p solid = Inr s1"
    "n_g_cells s1 =
       fold (\<lambda>c a. incr a (alloy_bucket alloy flds c)) [0..<n_cells q] (replicate 4 0)"
    by blast
  have eq: "alloy_local_counts alloy eps c2p r =
       fold (\<lambda>c a. incr a (alloy_bucket alloy flds c)) [0..<n_cells q] (replicate 4 0)"
    by (simp add: alloy_local_counts_def r s1)
  show "length (alloy_local_counts alloy eps c2p r) = 4"
    by (simp add: eq fold_incr_length)
  show "sum_list (alloy_local_counts alloy eps c2p r) = (case r of (flds, q, solid) \<Rightarrow> n_cells q)"
    using eq unfolding r by (simp add: fold_incr_sum alloy_bucket_less)
  show "alloy_local_counts alloy eps c2p r ! 3 = 0"
    by (simp add: eq fold_incr_nth alloy_bucket_not_eutectic[simplified])
qed

text \<open>
  Claim C7. In a pass of either updater every iteration of the loop on cells increments
  exactly one of the four counters (one whose index is below 4). Hence at the end of the
  loop, before the reduction, the local counters, four of them, add up to the local number of cells;
  and after the reduction over the ranks, each of which contributes its local counters,
  the four counters add up to the global number of cells. The binary alloy pass always
  returns.
\<close>

theorem update_counts_all_cells:
  "n_g_cells (voller_cell v_model forcing_eps dgldT inv_forcing_eps dgldT_coef quant
                (temperature_val flds) c_id solid0) =
     incr (n_g_cells solid0) (voller_bucket v_model flds c_id) \<and>
   voller_bucket v_model flds c_id < 4 \<and>
   length (n_g_cells (update_liquid_fraction_voller_cells v_model forcing_eps flds quant
                        cur2prev solid)) = 4 \<and>
   sum_list (n_g_cells (update_liquid_fraction_voller_cells v_model forcing_eps flds quant
                          cur2prev solid)) = n_cells quant \<and>
   sum_list (n_g_cells (update_liquid_fraction_voller v_model forcing_eps flds
                          (map (voller_local_counts v_model forcing_eps cur2prev) rs)
                          quant cur2prev solid)) = n_g_cells_total quant rs \<and>
   (\<exists>s'. alloy_cell alloy forcing_eps rhoLovdt inv_kpm1 eut_slope inv_forcing_eps quant
            flds c_id solid0 = Inr s' \<and>
          n_g_cells s' = incr (n_g_cells solid0) (alloy_bucket alloy flds c_id)) \<and>
   alloy_bucket alloy flds c_id < 4 \<and>
   (\<exists>s1 s'. update_liquid_fraction_binary_alloy_cells alloy forcing_eps flds quant
               cur2prev solid = Inr s1 \<and>
             length (n_g_cells s1) = 4 \<and>
             sum_list (n_g_cells s1) = n_cells quant \<and>
             update_liquid_fraction_binary_alloy alloy forcing_eps flds
               (map (alloy_local_counts alloy forcing_eps cur2prev) rs)
               quant cur2prev solid = Inr s' \<and>
             sum_list (n_g_cells s') = n_g_cells_total quant rs)"
proof -
  let ?vl = "update_liquid_fraction_voller_cells v_model forcing_eps flds quant cur2prev solid"
  have v1: "sum_list (n_g_cells ?vl) = n_cells quant"
    by (simp add: voller_cells_n_g_cells fold_incr_sum voller_bucket_less)
  have vlen: "length (n_g_cells ?vl) = 4"
    by (simp add: voller_cells_n_g_cells fold_incr_length)
  have "n_g_cells (update_liquid_fraction_voller v_model forcing_eps flds
                          (map (voller_local_counts v_model forcing_eps cur2prev) rs)
                          quant cur2prev solid) =
        cs_parall_sum (map (voller_local_counts v_model forcing_eps cur2prev) rs)
          (n_g_cells ?vl)"
    by (simp add: update_liquid_fraction_voller_def Let_def enforce_solid_cells_def)
  then have v2: "sum_list (n_g_cells (update_liquid_fraction_voller v_model forcing_eps flds
                          (map (voller_local_counts v_model forcing_eps cur2prev) rs)
                          quant cur2prev solid)) = n_g_cells_total quant rs"
    using v1 vlen
    by (simp add: cs_parall_sum_sum_list voller_local_counts_props n_g_cells_total_def
          comp_def)
  from alloy_update_counts[of alloy forcing_eps flds quant cur2prev solid
      "map (alloy_local_counts alloy forcing_eps cur2prev) rs"]
  obtain s1 s' where a:
    "update_liquid_fraction_binary_alloy_cells alloy forcing_eps flds quant cur2prev solid
       = Inr s1"
    "update_liquid_fraction_binary_alloy alloy forcing_eps flds
       (map (alloy_local_counts alloy forcing_eps cur2prev) rs) quant cur2prev solid = Inr s'"
    "n_g_cells s' =
       cs_parall_sum (map (alloy_local_counts alloy forcing_eps cur2prev) rs) (n_g_cells s1)"
    by blast
  from alloy_cells_counts[of alloy forcing_eps flds quant cur2prev solid] a(1)
  have c: "n_g_cells s1 =
      fold (\<lambda>c a. incr a (alloy_bucket alloy flds c)) [0..<n_cells quant] (replicate 4 0)"
    by simp
  have a1: "sum_list (n_g_cells s1) = n_cells quant"
    by (simp add: c fold_incr_sum alloy_bucket_less)
  have alen: "length (n_g_cells s1) = 4"
    by (simp add: c fold_incr_length)
  have a2: "sum_list (n_g_cells s') = n_g_cells_total quant rs"
    unfolding a(3) using a1 alen
    by (simp add: cs_parall_sum_sum_list alloy_local_counts_props n_g_cells_total_def
          comp_def)
  have last: "\<exists>s1 s'. update_liquid_fraction_binary_alloy_cells alloy forcing_eps flds quant
               cur2prev solid = Inr s1 \<and>
             length (n_g_cells s1) = 4 \<and>
             sum_list (n_g_cells s1) = n_cells quant \<and>
             update_liquid_fraction_binary_alloy alloy forcing_eps flds
               (map (alloy_local_counts alloy forcing_eps cur2prev) rs)
               quant cur2prev solid = Inr s' \<and>
             sum_list (n_g_cells s') = n_g_cells_total quant rs"
    using a(1,2) a1 a2 alen by blast
  show ?thesis
    by (intro conjI voller_cell_n_g_cells voller_bucket_less vlen v1 v2 alloy_cell_counts
          alloy_bucket_less last)
qed

subsection \<open>Monitoring\<close>

lemma monitoring_cell_frame:
  "cell_state (monitoring_cell quant c s) = cell_state s"
  "n_g_cells (monitoring_cell quant c s) = n_g_cells s"
  "model (monitoring_cell quant c s) = model s"
  "length (state_ratio (monitoring_cell quant c s)) = length (state_ratio s)"
  by (cases "cell_state s ! c"; simp add: monitoring_cell_def Let_def)+

lemma monitoring_cell_eutectic:
  "cell_state s ! c \<noteq> CS_SOLIDIFICATION_STATE_EUTECTIC \<Longrightarrow>
   state_ratio (monitoring_cell quant c s) ! 3 = state_ratio s ! 3"
  by (cases "cell_state s ! c"; simp add: monitoring_cell_def Let_def)

lemma monitoring_fold_frame:
  "cell_state (fold (monitoring_cell quant) xs s) = cell_state s"
  "n_g_cells (fold (monitoring_cell quant) xs s) = n_g_cells s"
  "model (fold (monitoring_cell quant) xs s) = model s"
  "length (state_ratio (fold (monitoring_cell quant) xs s)) = length (state_ratio s)"
  by (induction xs arbitrary: s; simp add: monitoring_cell_frame)+

lemma monitoring_fold_eutectic:
  "\<forall>c\<in>set xs. cell_state s ! c \<noteq> CS_SOLIDIFICATION_STATE_EUTECTIC \<Longrightarrow>
   state_ratio (fold (monitoring_cell quant) xs s) ! 3 = state_ratio s ! 3"
  by (induction xs arbitrary: s) (simp_all add: monitoring_cell_frame monitoring_cell_eutectic)

lemma do_monitoring_cells_eutectic:
  assumes "\<forall>c<n_cells quant. cell_state s ! c \<noteq> CS_SOLIDIFICATION_STATE_EUTECTIC"
  shows "state_ratio (do_monitoring_cells quant s) ! 3 = 0"
    and "length (state_ratio (do_monitoring_cells quant s)) = 4"
    and "n_g_cells (do_monitoring_cells quant s) = n_g_cells s"
    and "model (do_monitoring_cells quant s) = model s"
  using assms
  by (simp_all add: do_monitoring_cells_def monitoring_fold_eutectic monitoring_fold_frame)

lemma monitoring_cell_cong:
  assumes "cell_state s = cell_state t" and "state_ratio s = state_ratio t"
  shows "state_ratio (monitoring_cell quant c s) = state_ratio (monitoring_cell quant c t)"
proof -
  have "state_ratio (monitoring_cell quant c s) =
    (case cell_state s ! c of
        CS_SOLIDIFICATION_STATE_SOLID \<Rightarrow> (state_ratio s)[0 := state_ratio s ! 0 + cell_vol quant ! c]
      | CS_SOLIDIFICATION_STATE_MUSHY \<Rightarrow> (state_ratio s)[1 := state_ratio s ! 1 + cell_vol quant ! c]
      | CS_SOLIDIFICATION_STATE_LIQUID \<Rightarrow> (state_ratio s)[2 := state_ratio s ! 2 + cell_vol quant ! c]
      | CS_SOLIDIFICATION_STATE_EUTECTIC \<Rightarrow> (state_ratio s)[3 := state_ratio s ! 3 + cell_vol quant ! c]
      | CS_SOLIDIFICATION_N_STATES \<Rightarrow> state_ratio s)" for s
    by (cases "cell_state s ! c"; simp add: monitoring_cell_def Let_def)
  then show ?thesis by (simp only: assms)
qed

lemma monitoring_fold_cong:
  "cell_state s = cell_state t \<Longrightarrow> state_ratio s = state_ratio t \<Longrightarrow>
   state_ratio (fold (monitoring_cell quant) xs s) =
   state_ratio (fold (monitoring_cell quant) xs t)"
proof (induction xs arbitrary: s t)
  case Nil
  then show ?case by simp
next
  case (Cons x xs)
  have "state_ratio (fold (monitoring_cell quant) xs (monitoring_cell quant x s)) =
        state_ratio (fold (monitoring_cell quant) xs (monitoring_cell quant x t))"
  proof (rule Cons.IH)
    show "cell_state (monitoring_cell quant x s) = cell_state (monitoring_cell quant x t)"
      unfolding monitoring_cell_frame by (rule Cons.prems(1))
    show "state_ratio (monitoring_cell quant x s) = state_ratio (monitoring_cell quant x t)"
      by (rule monitoring_cell_cong[OF Cons.prems])
  qed
  then show ?case by simp
qed

text \<open>The volumes that the monitoring loop adds up depend on the cell states only.\<close>

lemma do_monitoring_cells_cell_state:
  assumes "cell_state s = cell_state t"
  shows "state_ratio (do_monitoring_cells quant s) = state_ratio (do_monitoring_cells quant t)"
  unfolding do_monitoring_cells_def
proof (rule monitoring_fold_cong)
  show "cell_state (s\<lparr>state_ratio := replicate 4 0\<rparr>) = cell_state (t\<lparr>state_ratio := replicate 4 0\<rparr>)"
    using assms by simp
  show "state_ratio (s\<lparr>state_ratio := replicate 4 0\<rparr>) = state_ratio (t\<lparr>state_ratio := replicate 4 0\<rparr>)"
    by simp
qed

lemma voller_cells_no_eutectic:
  assumes "voller_arrays_allocated quant flds s"
  shows "\<forall>c<n_cells quant.
           cell_state (update_liquid_fraction_voller_cells v eps flds quant c2p s) ! c
             \<noteq> CS_SOLIDIFICATION_STATE_EUTECTIC"
  by (simp add: voller_cells_nth(2)[OF _ assms])

lemma alloy_cells_no_eutectic:
  assumes "alloy_arrays_allocated quant flds s"
  shows "\<exists>s1. update_liquid_fraction_binary_alloy_cells alloy eps flds quant c2p s = Inr s1 \<and>
           (\<forall>c<n_cells quant. cell_state s1 ! c \<noteq> CS_SOLIDIFICATION_STATE_EUTECTIC)"
proof -
  from alloy_cells_loop[OF assms, of alloy eps c2p] obtain s1 where s1:
    "update_liquid_fraction_binary_alloy_cells alloy eps flds quant c2p s = Inr s1"
    "\<forall>c<n_cells quant. alloy_cell_post alloy eps flds quant c (cell_view s1 c)"
    by blast
  have "cell_state s1 ! c \<noteq> CS_SOLIDIFICATION_STATE_EUTECTIC" if "c < n_cells quant" for c
  proof -
    have "alloy_cell_post alloy eps flds quant c (cell_view s1 c)" using s1(2) that by simp
    then show ?thesis
      by (cases "snd (snd (get_alloy_state alloy (temperature_val flds ! c)
                    (bulk_conc flds ! c)))")
         (simp_all add: alloy_cell_post_def cell_view_def Let_def)
  qed
  then show ?thesis using s1(1) by simp
qed

lemma voller_local_ratio_props:
  assumes "case r of (flds, quant, solid) \<Rightarrow> alloy_arrays_allocated quant flds solid"
  shows "length (voller_local_ratio v eps c2p r) = 4"
    and "voller_local_ratio v eps c2p r ! 3 = 0"
proof -
  obtain flds q solid where r: "r = (flds, q, solid)" by (cases r) auto
  have al: "voller_arrays_allocated q flds solid"
    using assms by (simp add: r alloy_arrays_allocated_def)
  note ne = voller_cells_no_eutectic[OF al, of v eps c2p]
  show "length (voller_local_ratio v eps c2p r) = 4"
    by (simp add: voller_local_ratio_def r do_monitoring_cells_eutectic(2)[OF ne])
  show "voller_local_ratio v eps c2p r ! 3 = 0"
    by (simp add: voller_local_ratio_def r do_monitoring_cells_eutectic(1)[OF ne])
qed

lemma alloy_local_ratio_props:
  assumes "case r of (flds, quant, solid) \<Rightarrow> alloy_arrays_allocated quant flds solid"
  shows "length (alloy_local_ratio alloy eps c2p r) = 4"
    and "alloy_local_ratio alloy eps c2p r ! 3 = 0"
proof -
  obtain flds q solid where r: "r = (flds, q, solid)" by (cases r) auto
  have al: "alloy_arrays_allocated q flds solid" using assms by (simp add: r)
  from alloy_cells_no_eutectic[OF al, of alloy eps c2p] obtain s1 where s1:
    "update_liquid_fraction_binary_alloy_cells alloy eps flds q c2p solid = Inr s1"
    "\<forall>c<n_cells q. cell_state s1 ! c \<noteq> CS_SOLIDIFICATION_STATE_EUTECTIC" by blast
  show "length (alloy_local_ratio alloy eps c2p r) = 4"
    by (simp add: alloy_local_ratio_def r s1(1) do_monitoring_cells_eutectic(2)[OF s1(2)])
  show "alloy_local_ratio alloy eps c2p r ! 3 = 0"
    by (simp add: alloy_local_ratio_def r s1(1) do_monitoring_cells_eutectic(1)[OF s1(2)])
qed

lemma sum_list_map_zero: "(\<And>x. x \<in> set xs \<Longrightarrow> f x = 0) \<Longrightarrow> sum_list (map f xs) = 0"
  by (induction xs) simp_all

text \<open>The monitoring pass after a pass that left no eutectic cell state and a zero
  eutectic counter, when the other ranks contribute zero eutectic volumes.\<close>

lemma do_monitoring_eutectic:
  assumes ne: "\<forall>c<n_cells quant. cell_state s ! c \<noteq> CS_SOLIDIFICATION_STATE_EUTECTIC"
    and cnt: "n_g_cells s ! 3 = 0"
    and oth: "\<forall>v\<in>set others. length v = 4 \<and> v ! 3 = 0"
  shows "n_g_cells (fst (do_monitoring bits others quant s)) ! 3 = 0"
    and "state_ratio (fst (do_monitoring bits others quant s)) ! 3 = 0"
    and "drop 3 (snd (do_monitoring bits others quant s)) =
           (if model s AND CS_SOLIDIFICATION_MODEL_BINARY_ALLOY bits \<noteq> 0
            then [(''Eutectic'', 0, 0)] else [])"
proof -
  let ?s1 = "do_monitoring_cells quant s"
  note m = do_monitoring_cells_eutectic[OF ne]
  have len: "\<forall>v\<in>set others. length v = length (state_ratio ?s1)"
    using oth m(2) by simp
  have z: "sum_list (map (\<lambda>v. v ! 3) others) = 0"
    by (rule sum_list_map_zero) (use oth in simp)
  have p: "cs_parall_sum others (state_ratio ?s1) ! 3 = 0"
    using cs_parall_sum_nth[OF len, of 3] m(1,2) z by simp
  have l: "length (cs_parall_sum others (state_ratio ?s1)) = 4"
    using cs_parall_sum_length[OF len] m(2) by simp
  show "n_g_cells (fst (do_monitoring bits others quant s)) ! 3 = 0"
    by (simp add: do_monitoring_def Let_def m(3) cnt)
  show r: "state_ratio (fst (do_monitoring bits others quant s)) ! 3 = 0"
    by (simp add: do_monitoring_def Let_def l p)
  show "drop 3 (snd (do_monitoring bits others quant s)) =
           (if model s AND CS_SOLIDIFICATION_MODEL_BINARY_ALLOY bits \<noteq> 0
            then [(''Eutectic'', 0, 0)] else [])"
    by (simp add: do_monitoring_def Let_def l p m(3) cnt)
qed

lemma voller_update_model:
  "model (update_liquid_fraction_voller v eps flds others quant c2p s) = model s"
proof -
  have "model (voller_cell v eps d i k quant temp c s) = model s" for d i k temp c s
    by (simp add: voller_cell_def Let_def)
  then have "model (fold (voller_cell v eps d i k quant temp) xs s) = fold (\<lambda>c x. x) xs (model s)"
    for d i k temp xs s
    by (rule fold_cells_upd[where get = model and upd = "\<lambda>c x. x"])
  then show ?thesis
    by (simp add: update_liquid_fraction_voller_def update_liquid_fraction_voller_cells_def
          Let_def enforce_solid_cells_def fold_const)
qed

lemma alloy_update_model:
  "update_liquid_fraction_binary_alloy alloy eps flds others quant c2p s = Inr s' \<Longrightarrow>
   model s' = model s"
proof -
  assume run: "update_liquid_fraction_binary_alloy alloy eps flds others quant c2p s = Inr s'"
  have cell: "\<exists>s'. alloy_cell alloy eps r k e i quant flds c s = Inr s' \<and> True \<and>
                 model s' = model s" for r k e i c s
  proof -
    obtain tl ts st where gs:
      "get_alloy_state alloy (temperature_val flds ! c) (bulk_conc flds ! c) = (tl, ts, st)"
      by (cases "get_alloy_state alloy (temperature_val flds ! c) (bulk_conc flds ! c)") auto
    have "st \<noteq> CS_SOLIDIFICATION_N_STATES"
      using get_alloy_state_cases[of alloy "temperature_val flds ! c" "bulk_conc flds ! c"] gs
      by simp
    then show ?thesis using gs
      by (cases st) (simp_all add: alloy_cell_def Let_def)
  qed
  have face: "\<exists>s'. alloy_face alloy flds f s = Inr s' \<and> True \<and> model s' = model s" for f s
  proof -
    obtain tl ts st where gs:
      "get_alloy_state alloy (temp_faces flds ! f) (bulk_conc_f flds ! f) = (tl, ts, st)"
      by (cases "get_alloy_state alloy (temp_faces flds ! f) (bulk_conc_f flds ! f)") auto
    have "st \<noteq> CS_SOLIDIFICATION_N_STATES"
      using get_alloy_state_cases[of alloy "temp_faces flds ! f" "bulk_conc_f flds ! f"] gs
      by simp
    then show ?thesis using gs
      by (cases st) (simp_all add: alloy_face_def Let_def)
  qed
  have cells: "\<exists>s'. for_loop (alloy_cell alloy eps r k e i quant flds) [0..<n] s = Inr s' \<and>
                 True \<and> model s' = fold (\<lambda>c x. x) [0..<n] (model s)" for r k e i n s
    by (rule for_loop_fold[where I = "\<lambda>s. True" and get = model]) (use cell in auto)
  have faces: "\<exists>s'. for_loop (alloy_face alloy flds) [0..<n] s = Inr s' \<and>
                 True \<and> model s' = fold (\<lambda>c x. x) [0..<n] (model s)" for n s
    by (rule for_loop_fold[where I = "\<lambda>s. True" and get = model]) (use face in auto)
  from alloy_update_counts[of alloy eps flds quant c2p s others] run obtain s1 where
    s1: "update_liquid_fraction_binary_alloy_cells alloy eps flds quant c2p s = Inr s1"
    by auto
  have m1: "model s1 = model s"
    using s1 cells[of "cell_rho flds * latent_heat alloy / dt0 flds" "1 / (kp alloy - 1)"
        "1 / (c_eutec alloy - c_eutec_a alloy)" "1 / eps" "n_cells quant"
        "(if c2p then s\<lparr>g_l_pre := g_l s, c_l_pre := c_l s\<rparr> else s)
               \<lparr>n_g_cells := replicate 4 0\<rparr>"]
    by (auto simp add: update_liquid_fraction_binary_alloy_cells_def Let_def fold_const)
  let ?s2 = "if n_g_cells s1 ! state_id CS_SOLIDIFICATION_STATE_SOLID > 0
             then enforce_solid_cells quant s1 else s1"
  let ?s3 = "?s2\<lparr>n_g_cells := cs_parall_sum others (n_g_cells ?s2)\<rparr>"
  have "for_loop (alloy_face alloy flds) [0..<n_faces quant] ?s3 = Inr s'"
    using run s1 by (simp add: update_liquid_fraction_binary_alloy_def Let_def)
  then have "model s' = model ?s3"
    using faces[of "n_faces quant" ?s3] by (auto simp add: fold_const)
  also have "\<dots> = model s1" by (simp add: enforce_solid_cells_def)
  finally show ?thesis using m1 by simp
qed

lemma voller_cells_cell_state_length:
  "length (cell_state (update_liquid_fraction_voller_cells v eps flds quant c2p s)) =
     length (cell_state s)"
  unfolding update_liquid_fraction_voller_cells_def Let_def
  by (subst fold_cells_get[where get = cell_state, OF voller_cell_cell_state])
     (simp add: fold_list_update_length)

text \<open>
  Claim C10. After a pass of either updater followed by the monitoring pass, on a rank
  whose arrays are allocated and in a run where every rank contributes the counters and
  the volumes of its own pass: no cell state is EUTECTIC, the eutectic counter
  \<open>n_g_cells[EUTECTIC]\<close> is 0, the eutectic ratio \<open>state_ratio[EUTECTIC]\<close> is 0, and
  the line that the binary alloy model prints for the eutectic state shows 0 and 0.
\<close>

theorem monitoring_eutectic_is_zero:
  assumes "alloy_arrays_allocated quant flds solid" and "ranks_allocated rs"
    and "vol_tot quant \<noteq> 0"
  shows
    "(let s' = update_liquid_fraction_voller v_model forcing_eps flds
                 (map (voller_local_counts v_model forcing_eps cur2prev) rs) quant
                 cur2prev solid;
          m = do_monitoring bits (map (voller_local_ratio v_model forcing_eps cur2prev) rs)
                quant s'
      in CS_SOLIDIFICATION_STATE_EUTECTIC \<notin> set (cell_state s') \<and>
         n_g_cells (fst m) ! state_id CS_SOLIDIFICATION_STATE_EUTECTIC = 0 \<and>
         state_ratio (fst m) ! state_id CS_SOLIDIFICATION_STATE_EUTECTIC = 0 \<and>
         drop 3 (snd m) =
           (if model solid AND CS_SOLIDIFICATION_MODEL_BINARY_ALLOY bits \<noteq> 0
            then [(''Eutectic'', 0, 0)] else [])) \<and>
     (\<exists>s'. update_liquid_fraction_binary_alloy alloy forcing_eps flds
              (map (alloy_local_counts alloy forcing_eps cur2prev) rs) quant
              cur2prev solid = Inr s' \<and>
        (let m = do_monitoring bits (map (alloy_local_ratio alloy forcing_eps cur2prev) rs)
                   quant s'
         in CS_SOLIDIFICATION_STATE_EUTECTIC \<notin> set (cell_state s') \<and>
            n_g_cells (fst m) ! state_id CS_SOLIDIFICATION_STATE_EUTECTIC = 0 \<and>
            state_ratio (fst m) ! state_id CS_SOLIDIFICATION_STATE_EUTECTIC = 0 \<and>
            drop 3 (snd m) =
              (if model solid AND CS_SOLIDIFICATION_MODEL_BINARY_ALLOY bits \<noteq> 0
               then [(''Eutectic'', 0, 0)] else [])))"
proof -
  have ral: "case r of (flds, quant, solid) \<Rightarrow> alloy_arrays_allocated quant flds solid"
    if "r \<in> set rs" for r
    using assms(2) that by (simp add: ranks_allocated_def list_all_iff)
  have val: "voller_arrays_allocated quant flds solid"
    using assms(1) by (simp add: alloy_arrays_allocated_def)
  have clen: "length (cell_state solid) = n_cells quant"
    using val by (simp add: voller_arrays_allocated_def)
  \<comment> \<open>the Voller updater\<close>
  let ?vo = "map (voller_local_counts v_model forcing_eps cur2prev) rs"
  let ?vr = "map (voller_local_ratio v_model forcing_eps cur2prev) rs"
  let ?vl = "update_liquid_fraction_voller_cells v_model forcing_eps flds quant cur2prev solid"
  let ?vs = "update_liquid_fraction_voller v_model forcing_eps flds ?vo quant cur2prev solid"
  have vcs: "cell_state ?vs = cell_state ?vl" by (rule voller_update_fields(2))
  have vne: "\<forall>c<n_cells quant. cell_state ?vs ! c \<noteq> CS_SOLIDIFICATION_STATE_EUTECTIC"
    unfolding vcs by (rule voller_cells_no_eutectic[OF val])
  have vset: "CS_SOLIDIFICATION_STATE_EUTECTIC \<notin> set (cell_state ?vs)"
    using vne clen by (auto simp add: in_set_conv_nth vcs voller_cells_cell_state_length)
  have vn: "n_g_cells ?vs = cs_parall_sum ?vo (n_g_cells ?vl)"
    by (simp add: update_liquid_fraction_voller_def Let_def enforce_solid_cells_def)
  have vll: "length (n_g_cells ?vl) = 4" "n_g_cells ?vl ! 3 = 0"
    by (simp_all add: voller_cells_n_g_cells fold_incr_length fold_incr_nth
          voller_bucket_not_eutectic[simplified])
  have volen: "\<forall>v\<in>set ?vo. length v = length (n_g_cells ?vl)"
    by (simp add: vll voller_local_counts_props)
  have "sum_list (map (\<lambda>v. v ! 3) ?vo) = 0"
    by (rule sum_list_map_zero) (auto simp add: voller_local_counts_props)
  then have vcnt: "n_g_cells ?vs ! 3 = 0"
    unfolding vn using cs_parall_sum_nth[OF volen, of 3] vll by simp
  have voth: "\<forall>v\<in>set ?vr. length v = 4 \<and> v ! 3 = 0"
    using ral by (auto simp add: voller_local_ratio_props)
  note vm = do_monitoring_eutectic[OF vne vcnt voth, of bits]
  have V: "CS_SOLIDIFICATION_STATE_EUTECTIC \<notin> set (cell_state ?vs) \<and>
         n_g_cells (fst (do_monitoring bits ?vr quant ?vs)) !
           state_id CS_SOLIDIFICATION_STATE_EUTECTIC = 0 \<and>
         state_ratio (fst (do_monitoring bits ?vr quant ?vs)) !
           state_id CS_SOLIDIFICATION_STATE_EUTECTIC = 0 \<and>
         drop 3 (snd (do_monitoring bits ?vr quant ?vs)) =
           (if model solid AND CS_SOLIDIFICATION_MODEL_BINARY_ALLOY bits \<noteq> 0
            then [(''Eutectic'', 0, 0)] else [])"
    using vset vm by (simp add: voller_update_model)
  \<comment> \<open>the binary alloy updater\<close>
  let ?ao = "map (alloy_local_counts alloy forcing_eps cur2prev) rs"
  let ?ar = "map (alloy_local_ratio alloy forcing_eps cur2prev) rs"
  from alloy_update_counts[of alloy forcing_eps flds quant cur2prev solid ?ao]
  obtain s1 s' where a:
    "update_liquid_fraction_binary_alloy_cells alloy forcing_eps flds quant cur2prev solid
       = Inr s1"
    "update_liquid_fraction_binary_alloy alloy forcing_eps flds ?ao quant cur2prev solid
       = Inr s'"
    "cell_state s' = cell_state s1"
    "n_g_cells s' = cs_parall_sum ?ao (n_g_cells s1)"
    by blast
  from alloy_cells_loop[OF assms(1), of alloy forcing_eps cur2prev] a(1)
  have al1: "alloy_arrays_allocated quant flds s1"
    and c1: "n_g_cells s1 =
      fold (\<lambda>c a. incr a (alloy_bucket alloy flds c)) [0..<n_cells quant] (replicate 4 0)"
    by auto
  from alloy_cells_no_eutectic[OF assms(1), of alloy forcing_eps cur2prev] a(1)
  have ane1: "\<forall>c<n_cells quant. cell_state s1 ! c \<noteq> CS_SOLIDIFICATION_STATE_EUTECTIC"
    by auto
  then have ane: "\<forall>c<n_cells quant. cell_state s' ! c \<noteq> CS_SOLIDIFICATION_STATE_EUTECTIC"
    by (simp add: a(3))
  have "length (cell_state s1) = n_cells quant"
    using al1 by (simp add: alloy_arrays_allocated_def voller_arrays_allocated_def)
  then have aset: "CS_SOLIDIFICATION_STATE_EUTECTIC \<notin> set (cell_state s')"
    using ane1 by (auto simp add: in_set_conv_nth a(3))
  have all: "length (n_g_cells s1) = 4" "n_g_cells s1 ! 3 = 0"
    by (simp_all add: c1 fold_incr_length fold_incr_nth alloy_bucket_not_eutectic[simplified])
  have aolen: "\<forall>v\<in>set ?ao. length v = length (n_g_cells s1)"
    by (simp add: all alloy_local_counts_props)
  have "sum_list (map (\<lambda>v. v ! 3) ?ao) = 0"
    by (rule sum_list_map_zero) (auto simp add: alloy_local_counts_props)
  then have acnt: "n_g_cells s' ! 3 = 0"
    unfolding a(4) using cs_parall_sum_nth[OF aolen, of 3] all by simp
  have aoth: "\<forall>v\<in>set ?ar. length v = 4 \<and> v ! 3 = 0"
    using ral by (auto simp add: alloy_local_ratio_props)
  note am = do_monitoring_eutectic[OF ane acnt aoth, of bits]
  have A: "CS_SOLIDIFICATION_STATE_EUTECTIC \<notin> set (cell_state s') \<and>
         n_g_cells (fst (do_monitoring bits ?ar quant s')) !
           state_id CS_SOLIDIFICATION_STATE_EUTECTIC = 0 \<and>
         state_ratio (fst (do_monitoring bits ?ar quant s')) !
           state_id CS_SOLIDIFICATION_STATE_EUTECTIC = 0 \<and>
         drop 3 (snd (do_monitoring bits ?ar quant s')) =
           (if model solid AND CS_SOLIDIFICATION_MODEL_BINARY_ALLOY bits \<noteq> 0
            then [(''Eutectic'', 0, 0)] else [])"
    using aset am by (simp add: alloy_update_model[OF a(2)])
  show ?thesis
    unfolding Let_def using V a(2) A by blast
qed

theorem monitoring_eutectic_is_zero_witness:
  "alloy_arrays_allocated ex_quant (ex_fields 7 (1 / 5) (1 / 4)) (ex_solid\<lparr>model := 38\<rparr>) \<and>
   ranks_allocated [(ex_fields 1715 0 0, ex_quant, ex_solid\<lparr>model := 38\<rparr>)] \<and>
   vol_tot ex_quant \<noteq> 0 \<and>
   (\<exists>s'. update_liquid_fraction_binary_alloy ex_alloy_eutectic
            cs_solidification_forcing_eps_init (ex_fields 7 (1 / 5) (1 / 4))
            (map (alloy_local_counts ex_alloy_eutectic cs_solidification_forcing_eps_init True)
               [(ex_fields 1715 0 0, ex_quant, ex_solid\<lparr>model := 38\<rparr>)])
            ex_quant True (ex_solid\<lparr>model := 38\<rparr>) = Inr s' \<and>
          n_g_cells (fst (do_monitoring ex_bits
            (map (alloy_local_ratio ex_alloy_eutectic cs_solidification_forcing_eps_init True)
               [(ex_fields 1715 0 0, ex_quant, ex_solid\<lparr>model := 38\<rparr>)])
            ex_quant s')) ! 3 = 0 \<and>
          state_ratio (fst (do_monitoring ex_bits
            (map (alloy_local_ratio ex_alloy_eutectic cs_solidification_forcing_eps_init True)
               [(ex_fields 1715 0 0, ex_quant, ex_solid\<lparr>model := 38\<rparr>)])
            ex_quant s')) ! 3 = 0 \<and>
          snd (do_monitoring ex_bits
            (map (alloy_local_ratio ex_alloy_eutectic cs_solidification_forcing_eps_init True)
               [(ex_fields 1715 0 0, ex_quant, ex_solid\<lparr>model := 38\<rparr>)])
            ex_quant s') ! 3 = (''Eutectic'', 0, 0))"
proof -
  have h1: "alloy_arrays_allocated ex_quant (ex_fields 7 (1 / 5) (1 / 4))
              (ex_solid\<lparr>model := 38\<rparr>)"
    by (simp add: alloy_arrays_allocated_def voller_arrays_allocated_def ex_quant_def
          ex_fields_def ex_solid_def)
  have h2: "ranks_allocated [(ex_fields 1715 0 0, ex_quant, ex_solid\<lparr>model := 38\<rparr>)]"
    by (simp add: ranks_allocated_def alloy_arrays_allocated_def voller_arrays_allocated_def
          ex_quant_def ex_fields_def ex_solid_def)
  have h3: "vol_tot ex_quant \<noteq> 0" by (simp add: ex_quant_def)
  have m: "model (ex_solid\<lparr>model := 38\<rparr>) AND CS_SOLIDIFICATION_MODEL_BINARY_ALLOY ex_bits \<noteq> 0"
    by (simp add: ex_bits_def)
  have nth: "drop 3 xs = [x] \<Longrightarrow> xs ! 3 = x" for x :: "string \<times> real \<times> nat" and xs
    by (metis Cons_nth_drop_Suc drop_eq_Nil2 list.distinct(1) list.inject not_le)
  from monitoring_eutectic_is_zero[OF h1 h2 h3, of ex_voller
      cs_solidification_forcing_eps_init True ex_bits ex_alloy_eutectic]
  show ?thesis using h1 h2 h3 m nth unfolding Let_def by (auto simp del: drop_eq_Nil2)
qed

subsection \<open>The setters of the model parameters\<close>

lemma set_voller_model_errors:
  "cs_solidification_set_voller_model bits debug None a b lh fc =
     Inl (Bft_error err_empty_module)"
  "model solid AND CS_SOLIDIFICATION_MODEL_VOLLER_PRAKASH_87 bits = 0 \<Longrightarrow>
   \<exists>msg. cs_solidification_set_voller_model bits debug (Some solid) a b lh fc =
     Inl (Bft_error msg)"
  by (simp_all add: cs_solidification_set_voller_model_def)

lemma set_binary_alloy_model_errors:
  "cs_solidification_set_binary_alloy_model bits debug None name varname conc0 beta kp_arg
     mliq te tm sd lh fc = Inl (Bft_error err_empty_module)"
  "model solid AND CS_SOLIDIFICATION_MODEL_BINARY_ALLOY bits = 0 \<Longrightarrow>
   cs_solidification_set_binary_alloy_model bits True (Some solid) name varname conc0 beta
     kp_arg mliq te tm sd lh fc =
     Inl (Assertion_failed ''solid->model & CS_SOLIDIFICATION_MODEL_BINARY_ALLOY'')"
  by (simp_all add: cs_solidification_set_binary_alloy_model_def)

text \<open>
  Claim C9 holds for the setter of the Voller model and, for both setters, before the
  activation (the two lemmas above). It fails for the setter of the binary alloy model
  called on a module activated with the Voller model: the model bit is only asserted
  there, where the other setter calls \<^verbatim>\<open>bft_error\<close>. With the assertions compiled out,
  the call returns and the alloy parameters have been stored through the context pointer.
\<close>

theorem set_binary_alloy_model_on_voller_module:
  "cs_solidification_activate ex_bits ex_voller ex_alloy 22 0 0 = Inr ex_voller_module \<and>
   model ex_voller_module AND CS_SOLIDIFICATION_MODEL_BINARY_ALLOY ex_bits = 0 \<and>
   cs_solidification_set_binary_alloy_model ex_bits False (Some ex_voller_module)
     ''alloy'' ''C'' 0 0 (1 / 2) (- 1) 9 10 0 3 1600 =
     Inr (ex_voller_module\<lparr>model_context := Binary_alloy_context ex_alloy\<rparr>)"
  by (simp add: cs_solidification_activate_def cs_solidification_set_binary_alloy_model_def
        ex_voller_module_def ex_bits_def solidification_create_def ex_alloy_def Let_def)

subsection \<open>The forcing coefficient\<close>

lemma forcing_bound:
  fixes fc g eps :: real
  assumes "0 \<le> fc" "0 \<le> g" "g \<le> 1" "0 < eps"
  shows "0 < g ^ 3 + eps"
    and "0 \<le> fc * (1 - g)\<^sup>2 / (g ^ 3 + eps)"
    and "fc * (1 - g)\<^sup>2 / (g ^ 3 + eps) \<le> fc / eps"
proof -
  have g3: "0 \<le> g ^ 3" using assms(2) by simp
  show d: "0 < g ^ 3 + eps" using g3 assms(4) by linarith
  have "(1 - g)\<^sup>2 \<le> 1\<^sup>2"
    by (rule power_mono) (use assms in simp_all)
  then have n: "fc * (1 - g)\<^sup>2 \<le> fc"
    using assms(1) by (simp add: mult_left_le)
  show "0 \<le> fc * (1 - g)\<^sup>2 / (g ^ 3 + eps)"
    using assms(1) d by simp
  show "fc * (1 - g)\<^sup>2 / (g ^ 3 + eps) \<le> fc / eps"
    by (rule frac_le) (use assms n g3 in simp_all)
qed

text \<open>
  Claim C6, as stated, fails when the forcing coefficient is negative, which no setter
  excludes: the coefficient 0 written for a liquid cell is then above
  \<open>forcing_coef / forcing_eps\<close>. With \<open>forcing_coef = -1600\<close>, the default
  \<open>forcing_eps\<close> and a liquid cell (liquid fraction 1), the pass writes 0, which is not
  at most \<open>-1600 / 0.001\<close>.
\<close>

theorem forcing_above_bound_for_negative_coef:
  "0 \<le> g_l (update_liquid_fraction_voller ex_voller_neg cs_solidification_forcing_eps_init
             (ex_fields 1800 0 0) [] ex_quant True ex_solid) ! 0 \<and>
   g_l (update_liquid_fraction_voller ex_voller_neg cs_solidification_forcing_eps_init
             (ex_fields 1800 0 0) [] ex_quant True ex_solid) ! 0 \<le> 1 \<and>
   0 < cs_solidification_forcing_eps_init \<and>
   \<not> forcing_mom_array (update_liquid_fraction_voller ex_voller_neg
         cs_solidification_forcing_eps_init (ex_fields 1800 0 0) [] ex_quant True ex_solid) ! 0
       \<le> v_forcing_coef ex_voller_neg / cs_solidification_forcing_eps_init"
  by (simp add: update_liquid_fraction_voller_def update_liquid_fraction_voller_cells_def
      voller_cell_def ex_voller_neg_def ex_voller_def ex_fields_def ex_quant_def ex_solid_def
      solidification_create_def Let_def incr_def cs_parall_sum_def enforce_solid_cells_def
      cs_solidification_forcing_eps_init_def)

text \<open>
  Claim C6, amended. For every \<open>forcing_eps > 0\<close> and every cell of a pass of either
  updater, the forcing coefficient written is \<open>forcing_coef / forcing_eps\<close> on the
  solid branch, 0 on the liquid branch and
  \<open>forcing_coef * (1 - g)\<^sup>2 / (g ^ 3 + forcing_eps)\<close> on the mushy and eutectic
  branches, where \<open>g\<close> is the liquid fraction written for the cell. When moreover
  \<open>forcing_coef \<ge> 0\<close> and \<open>g\<close> lies in \<open>[0, 1]\<close>, the divisor \<open>g ^ 3 + forcing_eps\<close>
  is positive and the coefficient lies between 0 and \<open>forcing_coef / forcing_eps\<close>.
\<close>

theorem forcing_bounded:
  assumes "c_id < n_cells quant" and "alloy_arrays_allocated quant flds solid"
    and "0 < forcing_eps"
  shows
    "(let s' = update_liquid_fraction_voller v_model forcing_eps flds others quant
                 cur2prev solid;
          T = temperature_val flds ! c_id;
          g = g_l s' ! c_id;
          f = forcing_mom_array s' ! c_id
      in f = (if T < t_solidus v_model then v_forcing_coef v_model / forcing_eps
              else if T > t_liquidus v_model then 0
              else v_forcing_coef v_model * (1 - g)\<^sup>2 / (g ^ 3 + forcing_eps)) \<and>
         (0 \<le> v_forcing_coef v_model \<and> 0 \<le> g \<and> g \<le> 1 \<longrightarrow>
            0 < g ^ 3 + forcing_eps \<and> 0 \<le> f \<and> f \<le> v_forcing_coef v_model / forcing_eps)) \<and>
     (\<exists>s'. update_liquid_fraction_binary_alloy alloy forcing_eps flds others quant
              cur2prev solid = Inr s' \<and>
        (let st = snd (snd (get_alloy_state alloy (temperature_val flds ! c_id)
                      (bulk_conc flds ! c_id)));
             g = g_l s' ! c_id;
             f = forcing_mom_array s' ! c_id
         in f = (if st = CS_SOLIDIFICATION_STATE_SOLID then forcing_coef alloy / forcing_eps
                 else if st = CS_SOLIDIFICATION_STATE_LIQUID then 0
                 else forcing_coef alloy * (1 - g)\<^sup>2 / (g ^ 3 + forcing_eps)) \<and>
            (0 \<le> forcing_coef alloy \<and> 0 \<le> g \<and> g \<le> 1 \<longrightarrow>
               0 < g ^ 3 + forcing_eps \<and> 0 \<le> f \<and> f \<le> forcing_coef alloy / forcing_eps)))"
proof -
  have val: "voller_arrays_allocated quant flds solid"
    using assms(2) by (simp add: alloy_arrays_allocated_def)
  \<comment> \<open>the Voller updater\<close>
  let ?vs = "update_liquid_fraction_voller v_model forcing_eps flds others quant
               cur2prev solid"
  let ?T = "temperature_val flds ! c_id"
  let ?g = "g_l ?vs ! c_id"
  let ?f = "forcing_mom_array ?vs ! c_id"
  let ?fc = "v_forcing_coef v_model"
  have vf: "?f = (if ?T < t_solidus v_model then ?fc / forcing_eps
              else if ?T > t_liquidus v_model then 0
              else ?fc * (1 - ?g)\<^sup>2 / (?g ^ 3 + forcing_eps))"
    unfolding voller_update_fields
    by (simp add: voller_cells_nth[OF assms(1) val] power2_eq_square power3_eq_cube)
  have vb: "0 < ?g ^ 3 + forcing_eps \<and> 0 \<le> ?f \<and> ?f \<le> ?fc / forcing_eps"
    if h: "0 \<le> ?fc \<and> 0 \<le> ?g \<and> ?g \<le> 1"
  proof -
    note b = forcing_bound[of ?fc ?g forcing_eps]
    have "0 \<le> ?fc / forcing_eps" using h assms(3) by simp
    then show ?thesis using vf b h assms(3) by auto
  qed
  have V: "?f = (if ?T < t_solidus v_model then ?fc / forcing_eps
              else if ?T > t_liquidus v_model then 0
              else ?fc * (1 - ?g)\<^sup>2 / (?g ^ 3 + forcing_eps)) \<and>
         (0 \<le> ?fc \<and> 0 \<le> ?g \<and> ?g \<le> 1 \<longrightarrow>
            0 < ?g ^ 3 + forcing_eps \<and> 0 \<le> ?f \<and> ?f \<le> ?fc / forcing_eps)"
    using vf vb by blast
  \<comment> \<open>the binary alloy updater\<close>
  from alloy_cells_loop[OF assms(2), of alloy forcing_eps cur2prev] obtain s1 where s1:
    "update_liquid_fraction_binary_alloy_cells alloy forcing_eps flds quant cur2prev solid
       = Inr s1"
    "\<forall>c<n_cells quant. alloy_cell_post alloy forcing_eps flds quant c (cell_view s1 c)"
    by blast
  from alloy_update_full[OF assms(2), of alloy forcing_eps cur2prev others] s1(1)
  obtain s' where s':
    "update_liquid_fraction_binary_alloy alloy forcing_eps flds others quant cur2prev solid
       = Inr s'"
    "cell_view s' = cell_view s1" by auto
  have post: "alloy_cell_post alloy forcing_eps flds quant c_id (cell_view s' c_id)"
    using s1(2) assms(1) s'(2) by simp
  let ?st = "snd (snd (get_alloy_state alloy (temperature_val flds ! c_id)
                      (bulk_conc flds ! c_id)))"
  let ?ga = "g_l s' ! c_id"
  let ?fa = "forcing_mom_array s' ! c_id"
  let ?fca = "forcing_coef alloy"
  have af: "?fa = (if ?st = CS_SOLIDIFICATION_STATE_SOLID then ?fca / forcing_eps
                 else if ?st = CS_SOLIDIFICATION_STATE_LIQUID then 0
                 else ?fca * (1 - ?ga)\<^sup>2 / (?ga ^ 3 + forcing_eps))"
    using post
    by (cases ?st)
       (simp_all add: alloy_cell_post_def cell_view_def Let_def power2_eq_square
          power3_eq_cube)
  have ab: "0 < ?ga ^ 3 + forcing_eps \<and> 0 \<le> ?fa \<and> ?fa \<le> ?fca / forcing_eps"
    if h: "0 \<le> ?fca \<and> 0 \<le> ?ga \<and> ?ga \<le> 1"
  proof -
    note b = forcing_bound[of ?fca ?ga forcing_eps]
    have "0 \<le> ?fca / forcing_eps" using h assms(3) by simp
    then show ?thesis using af b h assms(3) by auto
  qed
  have A: "?fa = (if ?st = CS_SOLIDIFICATION_STATE_SOLID then ?fca / forcing_eps
                 else if ?st = CS_SOLIDIFICATION_STATE_LIQUID then 0
                 else ?fca * (1 - ?ga)\<^sup>2 / (?ga ^ 3 + forcing_eps)) \<and>
            (0 \<le> ?fca \<and> 0 \<le> ?ga \<and> ?ga \<le> 1 \<longrightarrow>
               0 < ?ga ^ 3 + forcing_eps \<and> 0 \<le> ?fa \<and> ?fa \<le> ?fca / forcing_eps)"
    using af ab by blast
  show ?thesis unfolding Let_def using V s'(1) A by blast
qed

theorem forcing_bounded_witness:
  "(0::nat) < n_cells ex_quant \<and>
   alloy_arrays_allocated ex_quant (ex_fields 1715 0 0) ex_solid \<and>
   0 < cs_solidification_forcing_eps_init \<and>
   0 \<le> v_forcing_coef ex_voller \<and>
   g_l (update_liquid_fraction_voller ex_voller cs_solidification_forcing_eps_init
          (ex_fields 1715 0 0) [] ex_quant True ex_solid) ! 0 = 1 / 2 \<and>
   forcing_mom_array (update_liquid_fraction_voller ex_voller
          cs_solidification_forcing_eps_init (ex_fields 1715 0 0) [] ex_quant True ex_solid) ! 0
     \<le> 1600000"
proof -
  have h1: "(0::nat) < n_cells ex_quant" by (simp add: ex_quant_def)
  have h2: "alloy_arrays_allocated ex_quant (ex_fields 1715 0 0) ex_solid"
    by (simp add: alloy_arrays_allocated_def voller_arrays_allocated_def ex_quant_def
          ex_fields_def ex_solid_def)
  have h3: "0 < cs_solidification_forcing_eps_init"
    by (simp add: cs_solidification_forcing_eps_init_def)
  have h4: "0 \<le> v_forcing_coef ex_voller" by (simp add: ex_voller_def)
  let ?s = "update_liquid_fraction_voller ex_voller cs_solidification_forcing_eps_init
          (ex_fields 1715 0 0) [] ex_quant True ex_solid"
  have g: "g_l ?s ! 0 = 1 / 2"
    by (simp add: update_liquid_fraction_voller_def update_liquid_fraction_voller_cells_def
      voller_cell_def ex_voller_def ex_fields_def ex_quant_def ex_solid_def
      solidification_create_def Let_def incr_def cs_parall_sum_def enforce_solid_cells_def)
  from forcing_bounded[OF h1 h2 h3, of ex_voller "[]" True, unfolded Let_def]
  have "0 \<le> v_forcing_coef ex_voller \<and> 0 \<le> g_l ?s ! 0 \<and> g_l ?s ! 0 \<le> 1 \<longrightarrow>
        forcing_mom_array ?s ! 0 \<le> v_forcing_coef ex_voller / cs_solidification_forcing_eps_init"
    by blast
  then have "forcing_mom_array ?s ! 0 \<le> 1600000"
    using h4 g by (simp add: ex_voller_def cs_solidification_forcing_eps_init_def)
  then show ?thesis using h1 h2 h3 h4 g by blast
qed

subsection \<open>The liquid fraction lies between 0 and 1\<close>









text \<open>The same happens in a eutectic cell of the binary alloy when
  \<open>c_eutec = c_eutec_a\<close>, that is for a partition coefficient of 1 and for equal eutectic
  and melting temperatures.\<close>

lemma alloy_liquid_fraction_nan:
  "snd (snd (get_alloy_state ex_alloy_kp_one 9 1)) = CS_SOLIDIFICATION_STATE_EUTECTIC"
  "alloy_g_l_double ex_alloy_kp_one 9 1 = NaN"
  "snd (snd (get_alloy_state ex_alloy_flat 10 0)) = CS_SOLIDIFICATION_STATE_EUTECTIC"
  "alloy_g_l_double ex_alloy_flat 10 0 = NaN"
  by (simp_all add: alloy_g_l_double_def get_alloy_state_def ex_alloy_kp_one_def
        ex_alloy_flat_def binary_alloy_params_def Let_def
        cs_solidification_eutectic_threshold_def)




end
